theory Spec2Isabelle
  imports Complex_Main "HOL-Library.AList"
begin

section \<open>Data model of the bot (bot.py)\<close>

text \<open>
  The bot keeps its state in JSON files under the data directory and in a few module-level
  constants read from the environment. The model threads one \<open>world\<close> value through every
  function: the files, the module constants and the trace of what was sent to the messaging
  platform.

  Conventions of the embedding:
  \<^item> A wall-clock value of \<open>datetime.now()\<close> is an integer number of microseconds since
    0001-01-01T00:00 (a naive datetime has exactly this resolution); its ISO rendering, as
    stored in the files, is identified with the value. A reading of \<open>time.time()\<close> is a
    real number of seconds. All clock readings made while one function runs are taken to be
    the same instant, passed in as the \<open>clock\<close> argument.
  \<^item> A user record is the dictionary the bot itself builds in \<open>get_user_data\<close>. Keys that
    both of its constructors (the full default and the minimal fallback) write are plain
    fields; keys that only one of them writes, or that handlers add later, are optional.
  \<^item> The users file is a JSON object in insertion order: an association list. Its keys are
    the decimal renderings of the user ids, identified with the ids.
  \<^item> A file is missing, unparsable, or has a content. Writing the users file can fail as a
    whole (\<open>users_writable\<close>), which the code catches and logs.
  \<^item> A reply or an outbound message is an entry of the trace \<open>outbox\<close>; the platform call
    itself is taken to succeed unless a function models its failure explicitly.
\<close>

type_synonym datetime = int

record clock =
  dt_now :: datetime
  time_now :: real

datatype 'a json_file = Missing | Corrupt | Content 'a

definition UserRole_USER :: string where "UserRole_USER = ''user''"
definition UserRole_MODERATOR :: string where "UserRole_MODERATOR = ''moderator''"
definition UserRole_ADMIN :: string where "UserRole_ADMIN = ''admin''"

record profile_data =
  full_name :: string
  username :: string
  bio :: string
  location :: string
  interests :: "string list"
  preferred_topics :: "string list"
  last_activity :: datetime

record privacy_data =
  show_last_seen :: bool
  show_join_date :: bool
  show_activity_stats :: bool

record settings_data =
  notifications :: bool
  daily_digest :: bool
  privacy :: "privacy_data option"
  theme :: "string option"

text \<open>\<open>last_command\<close> and \<open>last_command_time\<close> hold Python's \<open>None\<close> in both constructors;
  the other optional fields are keys that only the full default record has.\<close>

record stats_data =
  commands_used :: int
  messages_sent :: int
  media_sent :: "int option"
  stickers_sent :: "int option"
  voice_messages :: "int option"
  active_days :: "int option"
  last_command :: "string option"
  last_command_time :: "datetime option"
  favorite_commands :: "(string \<times> int) list option"

record rate_limit_data =
  count :: int
  last_reset :: real

record achievements_data =
  welcome_badge :: bool
  early_adopter :: bool
  active_user :: bool
  feedback_provider :: bool
  power_user :: bool

record metadata_data =
  referral_code :: string
  referred_by :: string
  devices :: "string list"
  timezone :: string

record user_data =
  chat_mode :: bool
  first_seen :: datetime
  last_seen :: datetime
  message_count :: int
  language :: string
  role :: string
  profile :: "profile_data option"
  settings :: settings_data
  stats :: stats_data
  rate_limit :: rate_limit_data
  achievements :: "achievements_data option"
  metadata :: "metadata_data option"
  waiting_for_feedback :: "bool option"
  setting_reminder :: "bool option"

type_synonym users = "(int \<times> user_data) list"

record feedback_entry =
  fb_user_id :: int
  fb_username :: string
  fb_text :: string
  fb_timestamp :: datetime

record reminder =
  rm_user_id :: int
  rm_time :: datetime
  rm_message :: string
  rm_created_at :: datetime

record broadcast =
  bc_admin_id :: int
  bc_timestamp :: datetime
  bc_message :: string
  total_recipients :: nat
  successful :: nat
  failed :: nat

text \<open>What the bot says. Each constructor stands for one literal text of the source, with the
  values interpolated into it as arguments.\<close>

datatype msg =
    AdminsOnly
  | TooFast
  | NotInChatMode
  | AiReply string
  | GroupIntro
  | FeedbackPrompt
  | FeedbackThanks
  | NewFeedback int string
  | BioTooLong
  | BioUpdated
  | LocationTooLong
  | LocationUpdated
  | TooManyInterests
  | InterestTooLong
  | InterestsUpdated nat
  | ProfileText user_data
  | RemindAt datetime string
  | FutureTimePlease
  | RemindUsage
  | ReminderFlowInvalidFormat
  | ReminderFlowFutureTimePlease
  | ReminderFlowError
  | BroadcastUsage
  | Announcement string
  | BroadcastReport nat nat nat string
  | PromoteUsage
  | InvalidRole
  | Promoted int string string
  | Congratulations string
  | PromoteInvalidFormat
  | DemoteUsage
  | AlreadyRegularUser
  | Demoted int string
  | DemotedNotice
  | DemoteInvalidFormat

text \<open>The calls made to the messaging platform, in order: a reply to the incoming message, a
  message sent to a chat (the attempt, whether or not it is delivered), the typing indicator,
  a one-shot job handed to the scheduler (delay in microseconds, then the job's chat, message
  and user), and the pause of the broadcast loop.\<close>

datatype event =
    Reply msg
  | SendMessage int msg
  | ChatAction int
  | RunOnce int int string int
  | Sleep

datatype sender = Bot | UserSender "string option" int

datatype py_error = KeyError | OverflowError

datatype conv_state = PROFILE | EDIT_CHOICE | EDIT_VALUE

text \<open>The incoming update: who sent it, in which chat, and its text. A user without a
  username or last name has \<open>None\<close> there.\<close>

record tg_user =
  tg_id :: int
  tg_username :: "string option"
  tg_first_name :: string
  tg_last_name :: "string option"

record update =
  effective_user :: tg_user
  chat_id :: int
  chat_type :: string
  message_text :: string

text \<open>What the model does not compute: the bot's own username, the answer of the AI provider
  to a text, and whether sending to a chat raises.\<close>

record platform =
  bot_username :: string
  ai_answer :: "string \<Rightarrow> int \<Rightarrow> string"
  delivery_fails :: "int \<Rightarrow> bool"

record world =
  ADMIN_IDS :: "int list"
  MODERATOR_IDS :: "int list"
  RATE_LIMIT_DEFAULT :: int
  RATE_LIMIT_ADMIN :: int
  RATE_LIMIT_WINDOW :: int
  DEFAULT_LANGUAGE :: string
  users_file :: "users json_file"
  users_writable :: bool
  users_writes :: nat
  feedback_file :: "(datetime \<times> feedback_entry) list json_file"
  reminders_file :: "reminder list json_file"
  broadcasts_file :: "broadcast list json_file"
  chat_history :: "(datetime \<times> sender \<times> string) list"
  command_logs :: "(datetime \<times> int \<times> string) list"
  outbox :: "event list"

section \<open>Text operations of the host language\<close>

text \<open>
  A text is a list of characters, each a code point below 256. \<open>py_isspace\<close> is the
  whitespace test that \<open>str.strip\<close>, \<open>str.split\<close> without separator and \<open>int\<close> share;
  \<open>py_lower\<close> is \<open>str.lower\<close> on these code points.
\<close>

definition py_isspace :: "char \<Rightarrow> bool" where
  "py_isspace c =
     (let n = (of_char c :: nat)
      in (9 \<le> n \<and> n \<le> 13) \<or> (28 \<le> n \<and> n \<le> 32) \<or> n = 133 \<or> n = 160)"

definition py_strip :: "string \<Rightarrow> string" where
  "py_strip s = rev (dropWhile py_isspace (rev (dropWhile py_isspace s)))"

definition py_lower_char :: "char \<Rightarrow> char" where
  "py_lower_char c =
     (let n = (of_char c :: nat)
      in if (65 \<le> n \<and> n \<le> 90) \<or> (192 \<le> n \<and> n \<le> 222 \<and> n \<noteq> 215)
         then char_of (n + 32) else c)"

definition py_lower :: "string \<Rightarrow> string" where
  "py_lower s = map py_lower_char s"

definition startswith :: "string \<Rightarrow> string \<Rightarrow> bool" where
  "startswith s p = (take (length p) s = p)"

text \<open>\<open>py_in sub s\<close> is the substring test \<open>sub in s\<close>.\<close>

fun py_in :: "string \<Rightarrow> string \<Rightarrow> bool" where
  "py_in sub [] = (sub = [])"
| "py_in sub (c # cs) = (startswith (c # cs) sub \<or> py_in sub cs)"

text \<open>\<open>s.split()\<close>: the maximal runs of non-whitespace, in order. The accumulator \<open>cur\<close>
  holds the current run.\<close>

fun split_ws :: "string \<Rightarrow> string \<Rightarrow> string list" where
  "split_ws cur [] = (if cur = [] then [] else [cur])"
| "split_ws cur (c # cs) =
     (if py_isspace c then (if cur = [] then split_ws [] cs else cur # split_ws [] cs)
      else split_ws (cur @ [c]) cs)"

definition py_split :: "string \<Rightarrow> string list" where
  "py_split s = split_ws [] s"

text \<open>\<open>s.split(sep, maxsplit)\<close> for a one-character separator: cut at each of the first
  \<open>maxsplit\<close> separators, empty pieces kept; \<open>None\<close> as \<open>maxsplit\<close> is no bound.\<close>

fun split_sep :: "char \<Rightarrow> nat option \<Rightarrow> string \<Rightarrow> string \<Rightarrow> string list" where
  "split_sep sep m cur [] = [cur]"
| "split_sep sep m cur (c # cs) =
     (if m = Some 0 then [cur @ c # cs]
      else if c = sep then cur # split_sep sep (map_option (\<lambda>k. k - 1) m) [] cs
      else split_sep sep m (cur @ [c]) cs)"

definition py_split_on :: "char \<Rightarrow> nat option \<Rightarrow> string \<Rightarrow> string list" where
  "py_split_on sep m s = split_sep sep m [] s"

fun py_join :: "string \<Rightarrow> string list \<Rightarrow> string" where
  "py_join sep [] = []"
| "py_join sep [x] = x"
| "py_join sep (x # y # ys) = x @ sep @ py_join sep (y # ys)"

text \<open>\<open>int(s)\<close> in base ten: surrounding whitespace, one optional sign, then digits, where
  single underscores may stand between two digits. \<open>None\<close> is the \<open>ValueError\<close>.\<close>

definition is_digit :: "char \<Rightarrow> bool" where
  "is_digit c = (48 \<le> (of_char c :: nat) \<and> (of_char c :: nat) \<le> 57)"

definition digit_val :: "char \<Rightarrow> int" where
  "digit_val c = int (of_char c) - 48"

fun py_digits :: "int \<Rightarrow> string \<Rightarrow> int option" where
  "py_digits acc [] = Some acc"
| "py_digits acc [c] = (if is_digit c then Some (acc * 10 + digit_val c) else None)"
| "py_digits acc (c # d # ds) =
     (if is_digit c then py_digits (acc * 10 + digit_val c) (d # ds)
      else if c = CHR ''_'' \<and> is_digit d then py_digits (acc * 10 + digit_val d) ds
      else None)"

definition py_unsigned :: "string \<Rightarrow> int option" where
  "py_unsigned s =
     (case s of [] \<Rightarrow> None
      | c # cs \<Rightarrow> if is_digit c then py_digits (digit_val c) cs else None)"

definition py_int :: "string \<Rightarrow> int option" where
  "py_int s =
     (case py_strip s of
        [] \<Rightarrow> None
      | c # cs \<Rightarrow>
          if c = CHR ''-'' then map_option uminus (py_unsigned cs)
          else if c = CHR ''+'' then py_unsigned cs
          else py_unsigned (c # cs))"

section \<open>Persistent store\<close>

text \<open>\<open>save_all_users\<close>: open the users file for writing and dump the whole mapping; any
  failure is caught and logged. \<open>users_writes\<close> counts the dumps that happened.\<close>

definition save_all_users :: "users \<Rightarrow> world \<Rightarrow> world" where
  "save_all_users users_data w =
     (if users_writable w
      then w\<lparr>users_file := Content users_data, users_writes := users_writes w + 1\<rparr>
      else w)"

text \<open>\<open>save_user_data\<close>: open the file for update (it must exist and be writable), load it,
  set the one key, dump everything through \<open>save_all_users\<close>; any failure is caught.\<close>

definition save_user_data :: "int \<Rightarrow> user_data \<Rightarrow> world \<Rightarrow> world" where
  "save_user_data user_id data w =
     (case users_file w of
        Content users \<Rightarrow>
          if users_writable w then save_all_users (AList.update user_id data users) w else w
      | _ \<Rightarrow> w)"

definition new_user_record :: "clock \<Rightarrow> int \<Rightarrow> world \<Rightarrow> user_data" where
  "new_user_record clk user_id w =
     \<lparr> chat_mode = False,
       first_seen = dt_now clk,
       last_seen = dt_now clk,
       message_count = 0,
       language = DEFAULT_LANGUAGE w,
       role = (if user_id \<in> set (ADMIN_IDS w) then UserRole_ADMIN
               else if user_id \<in> set (MODERATOR_IDS w) then UserRole_MODERATOR
               else UserRole_USER),
       profile = Some \<lparr> full_name = [], username = [], bio = [], location = [],
                        interests = [], preferred_topics = [],
                        last_activity = dt_now clk \<rparr>,
       settings = \<lparr> notifications = True, daily_digest = False,
                    privacy = Some \<lparr> show_last_seen = True, show_join_date = True,
                                     show_activity_stats = True \<rparr>,
                    theme = Some ''system'' \<rparr>,
       stats = \<lparr> commands_used = 0, messages_sent = 0, media_sent = Some 0,
                 stickers_sent = Some 0, voice_messages = Some 0, active_days = Some 1,
                 last_command = None, last_command_time = None,
                 favorite_commands = Some [] \<rparr>,
       rate_limit = \<lparr> count = 0, last_reset = time_now clk \<rparr>,
       achievements = Some \<lparr> welcome_badge = False, early_adopter = False, active_user = False,
                             feedback_provider = False, power_user = False \<rparr>,
       metadata = Some \<lparr> referral_code = [], referred_by = [], devices = [],
                         timezone = ''UTC'' \<rparr>,
       waiting_for_feedback = None,
       setting_reminder = None \<rparr>"

definition fallback_user_record :: "clock \<Rightarrow> world \<Rightarrow> user_data" where
  "fallback_user_record clk w =
     \<lparr> chat_mode = False,
       first_seen = dt_now clk,
       last_seen = dt_now clk,
       message_count = 0,
       language = DEFAULT_LANGUAGE w,
       role = UserRole_USER,
       profile = None,
       settings = \<lparr> notifications = True, daily_digest = False, privacy = None,
                    theme = None \<rparr>,
       stats = \<lparr> commands_used = 0, messages_sent = 0, media_sent = None,
                 stickers_sent = None, voice_messages = None, active_days = None,
                 last_command = None, last_command_time = None,
                 favorite_commands = None \<rparr>,
       rate_limit = \<lparr> count = 0, last_reset = time_now clk \<rparr>,
       achievements = None,
       metadata = None,
       waiting_for_feedback = None,
       setting_reminder = None \<rparr>"

text \<open>\<open>get_user_data\<close>: load the users file; an unseen id gets the full default record, which
  is written back at once; any failure while reading yields the minimal record, unsaved.
  \<open>save_all_users\<close> swallows its own failure, so the new record is returned even when the
  write did not happen.\<close>

definition get_user_data :: "clock \<Rightarrow> int \<Rightarrow> world \<Rightarrow> user_data \<times> world" where
  "get_user_data clk user_id w =
     (case users_file w of
        Content users \<Rightarrow>
          (case map_of users user_id of
             None \<Rightarrow>
               (let d = new_user_record clk user_id w
                in (d, save_all_users (AList.update user_id d users) w))
           | Some d \<Rightarrow> (d, w))
      | _ \<Rightarrow> (fallback_user_record clk w, w))"

definition get_all_users :: "world \<Rightarrow> users" where
  "get_all_users w = (case users_file w of Content users \<Rightarrow> users | _ \<Rightarrow> [])"

section \<open>Permission model\<close>

definition is_admin :: "clock \<Rightarrow> int \<Rightarrow> world \<Rightarrow> bool \<times> world" where
  "is_admin clk user_id w =
     (let (user_data, w1) = get_user_data clk user_id w
      in (role user_data = UserRole_ADMIN \<or> user_id \<in> set (ADMIN_IDS w1), w1))"

definition is_moderator :: "clock \<Rightarrow> int \<Rightarrow> world \<Rightarrow> bool \<times> world" where
  "is_moderator clk user_id w =
     (let (user_data, w1) = get_user_data clk user_id w
      in (role user_data \<in> set [UserRole_MODERATOR, UserRole_ADMIN]
          \<or> user_id \<in> set (MODERATOR_IDS w1)
          \<or> user_id \<in> set (ADMIN_IDS w1), w1))"

text \<open>Observers used to state the claims: whether the users file can be read, the record it
  holds for an id, and the role stored there.\<close>

definition users_readable :: "world \<Rightarrow> bool" where
  "users_readable w = (case users_file w of Content users \<Rightarrow> True | _ \<Rightarrow> False)"

definition stored_user :: "world \<Rightarrow> int \<Rightarrow> user_data option" where
  "stored_user w user_id =
     (case users_file w of Content users \<Rightarrow> map_of users user_id | _ \<Rightarrow> None)"

definition stored_role :: "world \<Rightarrow> int \<Rightarrow> string option" where
  "stored_role w user_id = map_option role (stored_user w user_id)"

section \<open>Logs and outbound calls\<close>

definition log_command :: "clock \<Rightarrow> int \<Rightarrow> string \<Rightarrow> world \<Rightarrow> world" where
  "log_command clk user_id command w =
     w\<lparr>command_logs := command_logs w @ [(dt_now clk, user_id, command)]\<rparr>"

text \<open>The caller passes \<open>user.username\<close> or, when there is none, a name made from the id; the
  latter is \<open>None\<close> here.\<close>

definition save_chat_history ::
  "clock \<Rightarrow> int \<Rightarrow> string option \<Rightarrow> string \<Rightarrow> bool \<Rightarrow> world \<Rightarrow> world" where
  "save_chat_history clk user_id uname message is_bot w =
     w\<lparr>chat_history := chat_history w @
          [(dt_now clk, if is_bot then Bot else UserSender uname user_id, message)]\<rparr>"

definition reply_text :: "msg \<Rightarrow> world \<Rightarrow> world" where
  "reply_text m w = w\<lparr>outbox := outbox w @ [Reply m]\<rparr>"

definition send_message :: "int \<Rightarrow> msg \<Rightarrow> world \<Rightarrow> world" where
  "send_message chat m w = w\<lparr>outbox := outbox w @ [SendMessage chat m]\<rparr>"

definition emit :: "event \<Rightarrow> world \<Rightarrow> world" where
  "emit e w = w\<lparr>outbox := outbox w @ [e]\<rparr>"

text \<open>\<open>notify_admins\<close>: one send per id of the admin list, each in its own \<open>try\<close>, so every
  admin is attempted.\<close>

fun notify_loop :: "int list \<Rightarrow> msg \<Rightarrow> world \<Rightarrow> world" where
  "notify_loop [] m w = w"
| "notify_loop (a # rest) m w = notify_loop rest m (send_message a m w)"

definition notify_admins :: "msg \<Rightarrow> world \<Rightarrow> world" where
  "notify_admins m w = notify_loop (ADMIN_IDS w) m w"

section \<open>Rate limiter\<close>

record rate_tier =
  limit :: int
  per_seconds :: int

text \<open>The table \<open>RATE_LIMIT\<close> has the two keys \<open>default\<close> and \<open>admin\<close>; both windows come
  from the same setting. The caller only ever passes one of the two keys.\<close>

definition RATE_LIMIT :: "world \<Rightarrow> string \<Rightarrow> rate_tier" where
  "RATE_LIMIT w tier =
     (if tier = ''admin''
      then \<lparr>limit = RATE_LIMIT_ADMIN w, per_seconds = RATE_LIMIT_WINDOW w\<rparr>
      else \<lparr>limit = RATE_LIMIT_DEFAULT w, per_seconds = RATE_LIMIT_WINDOW w\<rparr>)"

definition check_rate_limit :: "clock \<Rightarrow> int \<Rightarrow> world \<Rightarrow> bool \<times> world" where
  "check_rate_limit clk user_id w =
     (let (user_data, w1) = get_user_data clk user_id w;
          (adm, w2) = is_admin clk user_id w1;
          tier = (if adm then ''admin'' else ''default'');
          lim = limit (RATE_LIMIT w2 tier);
          per = per_seconds (RATE_LIMIT w2 tier);
          now = time_now clk;
          rate_data = rate_limit user_data;
          rate_data = (if now - last_reset rate_data > real_of_int per
                       then rate_data\<lparr>count := 0, last_reset := now\<rparr>
                       else rate_data)
      in if count rate_data \<ge> lim then (False, w2)
         else (True,
               save_user_data user_id
                 (user_data\<lparr>rate_limit := rate_data\<lparr>count := count rate_data + 1\<rparr>\<rparr>) w2))"

section \<open>Feedback capture\<close>

definition feedback_command :: "clock \<Rightarrow> update \<Rightarrow> world \<Rightarrow> world" where
  "feedback_command clk upd w =
     (let user = effective_user upd;
          (user_data, w1) = get_user_data clk (tg_id user) w;
          w2 = save_user_data (tg_id user) (user_data\<lparr>waiting_for_feedback := Some True\<rparr>) w1;
          w3 = reply_text FeedbackPrompt w2
      in log_command clk (tg_id user) ''/feedback'' w3)"

definition display_name :: "tg_user \<Rightarrow> string" where
  "display_name user =
     py_strip (tg_first_name user @ '' '' @
               (case tg_last_name user of None \<Rightarrow> [] | Some l \<Rightarrow> l))"

text \<open>\<open>handle_feedback\<close>: the entry is stored under the current timestamp as key (an
  assignment into the loaded mapping); a file that cannot be loaded leaves the entry unsaved.
  Then the flag is reset on a fresh read of the user record, the admins are told, the user is
  thanked.\<close>

definition handle_feedback :: "clock \<Rightarrow> update \<Rightarrow> world \<Rightarrow> world" where
  "handle_feedback clk upd w =
     (let user = effective_user upd;
          feedback_text = message_text upd;
          feedback = \<lparr> fb_user_id = tg_id user,
                       fb_username = (case tg_username user of
                                        None \<Rightarrow> display_name user
                                      | Some n \<Rightarrow> if n = [] then display_name user else n),
                       fb_text = feedback_text,
                       fb_timestamp = dt_now clk \<rparr>;
          w1 = (case feedback_file w of
                  Content feedbacks \<Rightarrow>
                    w\<lparr>feedback_file := Content (AList.update (dt_now clk) feedback feedbacks)\<rparr>
                | _ \<Rightarrow> w);
          (user_data, w2) = get_user_data clk (tg_id user) w1;
          w3 = save_user_data (tg_id user) (user_data\<lparr>waiting_for_feedback := Some False\<rparr>) w2;
          w4 = notify_admins (NewFeedback (tg_id user) feedback_text) w3
      in reply_text FeedbackThanks w4)"

section \<open>Reminders\<close>

text \<open>Date arithmetic of the host language. A \<open>timedelta\<close> is a number of microseconds whose
  day count must stay within 999999999 either way; a \<open>datetime\<close> must stay between
  0001-01-01T00:00:00 and 9999-12-31T23:59:59.999999. Leaving either range raises
  \<open>OverflowError\<close>.\<close>

definition US_PER_DAY :: int where "US_PER_DAY = 86400000000"

definition datetime_max :: int where "datetime_max = 3652059 * US_PER_DAY - 1"

definition timedelta :: "int \<Rightarrow> int \<Rightarrow> int \<Rightarrow> int \<Rightarrow> py_error + int" where
  "timedelta weeks days hours minutes =
     (let us = (((weeks * 7 + days) * 24 + hours) * 60 + minutes) * 60000000
      in if \<bar>us div US_PER_DAY\<bar> > 999999999 then Inl OverflowError else Inr us)"

definition dt_add :: "datetime \<Rightarrow> py_error + int \<Rightarrow> py_error + datetime" where
  "dt_add t delta =
     (case delta of
        Inl e \<Rightarrow> Inl e
      | Inr us \<Rightarrow> if 0 \<le> t + us \<and> t + us \<le> datetime_max then Inr (t + us)
                  else Inl OverflowError)"

text \<open>\<open>now.replace(hour=h, minute=m, second=0, microsecond=0)\<close>; \<open>None\<close> is the
  \<open>ValueError\<close> for an hour or minute out of range.\<close>

definition dt_replace :: "datetime \<Rightarrow> int \<Rightarrow> int \<Rightarrow> datetime option" where
  "dt_replace t h m =
     (if 0 \<le> h \<and> h \<le> 23 \<and> 0 \<le> m \<and> m \<le> 59
      then Some ((t div US_PER_DAY) * US_PER_DAY + (h * 3600 + m * 60) * 1000000)
      else None)"

text \<open>\<open>parse_time\<close>. Inside the \<open>in\<close> branch a \<open>ValueError\<close> of \<open>int\<close>, too few words
  or an unknown unit all leave the branch without a result, and the \<open>at\<close> branch is an
  \<open>elif\<close> of it, so control reaches the default at the end. An \<open>OverflowError\<close> is not
  caught here.\<close>

definition parse_time :: "datetime \<Rightarrow> string \<Rightarrow> py_error + datetime" where
  "parse_time now time_str =
     (let dflt = dt_add now (timedelta 0 0 1 0)
      in if startswith time_str ''in '' then
           (case py_split (drop 3 time_str) of
              a # u # _ \<Rightarrow>
                (case py_int a of
                   None \<Rightarrow> dflt
                 | Some amount \<Rightarrow>
                     (let unit = py_lower u
                      in if py_in ''minute'' unit then dt_add now (timedelta 0 0 0 amount)
                         else if py_in ''hour'' unit then dt_add now (timedelta 0 0 amount 0)
                         else if py_in ''day'' unit then dt_add now (timedelta 0 amount 0 0)
                         else if py_in ''week'' unit then dt_add now (timedelta amount 0 0 0)
                         else dflt))
            | _ \<Rightarrow> dflt)
         else if startswith time_str ''at '' then
           (case map py_int (py_split_on (CHR '':'') None (py_strip (drop 3 time_str))) of
              [Some hours, Some minutes] \<Rightarrow>
                (case dt_replace now hours minutes of
                   None \<Rightarrow> dflt
                 | Some reminder_time \<Rightarrow>
                     if reminder_time < now then dt_add reminder_time (timedelta 0 1 0 0)
                     else Inr reminder_time)
            | _ \<Rightarrow> dflt)
         else dflt)"

text \<open>\<open>save_reminder\<close>: append to the list in the reminders file; a file that cannot be
  loaded is left alone.\<close>

definition save_reminder :: "clock \<Rightarrow> int \<Rightarrow> datetime \<Rightarrow> string \<Rightarrow> world \<Rightarrow> world" where
  "save_reminder clk user_id reminder_time message w =
     (case reminders_file w of
        Content reminders \<Rightarrow>
          w\<lparr>reminders_file := Content (reminders @
              [\<lparr> rm_user_id = user_id, rm_time = reminder_time, rm_message = message,
                 rm_created_at = dt_now clk \<rparr>])\<rparr>
      | _ \<Rightarrow> w)"

text \<open>The part that \<open>remind_me\<close> and \<open>handle_reminder\<close> share word for word: hand the job
  to the scheduler, confirm, record.\<close>

definition schedule_reminder ::
  "clock \<Rightarrow> update \<Rightarrow> datetime \<Rightarrow> string \<Rightarrow> world \<Rightarrow> world" where
  "schedule_reminder clk upd reminder_time message w =
     (let user = effective_user upd;
          w1 = emit (RunOnce (reminder_time - dt_now clk) (chat_id upd) message (tg_id user)) w;
          w2 = reply_text (RemindAt reminder_time message) w1
      in save_reminder clk (tg_id user) reminder_time message w2)"

text \<open>\<open>remind_me\<close>, with the words after the command as \<open>args\<close>. Only \<open>ValueError\<close> and
  \<open>IndexError\<close> are caught around the parse, and nothing there raises them, so an
  \<open>OverflowError\<close> leaves the handler.\<close>

definition remind_me :: "clock \<Rightarrow> string list \<Rightarrow> update \<Rightarrow> world \<Rightarrow> py_error + world" where
  "remind_me clk args upd w =
     (let user = effective_user upd;
          (user_data, w1) = get_user_data clk (tg_id user) w
      in case args of
           [] \<Rightarrow> Inr (reply_text RemindUsage w1)
         | time_str # rest \<Rightarrow>
             (let message = (if rest \<noteq> [] then py_join '' '' rest else ''Reminder!'')
              in case parse_time (dt_now clk) time_str of
                   Inl e \<Rightarrow> Inl e
                 | Inr reminder_time \<Rightarrow>
                     if reminder_time > dt_now clk
                     then Inr (schedule_reminder clk upd reminder_time message w1)
                     else Inr (reply_text FutureTimePlease w1)))"

text \<open>\<open>handle_reminder\<close>. The early \<open>return\<close> for a one-word text sits before the reset of
  the flag; every exception of the body is caught.\<close>

definition handle_reminder :: "clock \<Rightarrow> update \<Rightarrow> world \<Rightarrow> world" where
  "handle_reminder clk upd w =
     (let user = effective_user upd;
          (user_data, w1) = get_user_data clk (tg_id user) w
      in if setting_reminder user_data \<noteq> Some True then w1
         else
           (case py_split_on (CHR '' '') (Some 2) (py_strip (message_text upd)) of
              p0 # p1 # rest \<Rightarrow>
                (let time_str = ''in '' @ p0 @ '' '' @ p1;
                     message = (case rest of [] \<Rightarrow> ''Reminder!'' | p2 # _ \<Rightarrow> p2);
                     w2 = (case parse_time (dt_now clk) time_str of
                             Inl e \<Rightarrow> reply_text ReminderFlowError w1
                           | Inr reminder_time \<Rightarrow>
                               if reminder_time > dt_now clk
                               then schedule_reminder clk upd reminder_time message w1
                               else reply_text ReminderFlowFutureTimePlease w1)
                 in save_user_data (tg_id user) (user_data\<lparr>setting_reminder := Some False\<rparr>) w2)
            | _ \<Rightarrow> reply_text ReminderFlowInvalidFormat w1))"

section \<open>Dispatcher of plain-text messages\<close>

text \<open>\<open>user.username or f"user_{user.id}"\<close>: an absent or empty username gives the name made
  from the id.\<close>

definition tg_username_or_none :: "tg_user \<Rightarrow> string option" where
  "tg_username_or_none user =
     (case tg_username user of None \<Rightarrow> None | Some n \<Rightarrow> if n = [] then None else Some n)"

text \<open>\<open>handle_message\<close>. The answer of the AI provider is a parameter; asking for it reads
  the user record, which exists by then.\<close>

definition handle_message :: "platform \<Rightarrow> clock \<Rightarrow> update \<Rightarrow> world \<Rightarrow> world" where
  "handle_message pf clk upd w =
     (let user = effective_user upd;
          text = message_text upd
      in if text = [] \<or> chat_type upd = ''channel'' then w
         else
           (let (user_data, w1) = get_user_data clk (tg_id user) w;
                user_data = user_data\<lparr>last_seen := dt_now clk\<rparr>;
                user_data = user_data\<lparr>stats := (stats user_data)
                              \<lparr>messages_sent := messages_sent (stats user_data) + 1\<rparr>\<rparr>;
                w2 = save_user_data (tg_id user) user_data w1;
                (ok, w3) = check_rate_limit clk (tg_id user) w2
            in if \<not> ok then reply_text TooFast w3
               else
                 (let w4 = save_chat_history clk (tg_id user) (tg_username_or_none user) text False w3
                  in if chat_mode user_data then
                       (let w5 = emit (ChatAction (chat_id upd)) w4;
                            ai_response = ai_answer pf text (tg_id user);
                            w6 = reply_text (AiReply ai_response) w5
                        in save_chat_history clk (tg_id user) (Some ''Bot'') ai_response True w6)
                     else if chat_type upd \<in> set [''group'', ''supergroup''] then
                       (if py_in (''@'' @ bot_username pf) text then reply_text GroupIntro w4
                        else w4)
                     else if chat_type upd = ''private'' then
                       (if waiting_for_feedback user_data = Some True
                        then handle_feedback clk upd w4
                        else if setting_reminder user_data = Some True
                        then handle_reminder clk upd w4
                        else if \<not> startswith text ''/'' then reply_text NotInChatMode w4
                        else w4)
                     else w4)))"

section \<open>Profile editing\<close>

text \<open>\<open>profile\<close>, the handler that shows the profile (here \<open>profile_cmd\<close>, since the record
  field has the name). Reading \<open>user_data['profile']\<close> raises \<open>KeyError\<close> on the minimal
  record. The text shown is a rendering of the record.\<close>

definition profile_cmd :: "clock \<Rightarrow> update \<Rightarrow> world \<Rightarrow> py_error + conv_state \<times> world" where
  "profile_cmd clk upd w =
     (let user = effective_user upd;
          (user_data, w1) = get_user_data clk (tg_id user) w
      in case profile user_data of
           None \<Rightarrow> Inl KeyError
         | Some p \<Rightarrow>
             if full_name p = [] then
               (let user_data = user_data\<lparr>profile := Some (p
                      \<lparr> full_name := display_name user,
                        username := (case tg_username user of None \<Rightarrow> [] | Some n \<Rightarrow> n),
                        last_activity := dt_now clk \<rparr>)\<rparr>;
                    w2 = save_user_data (tg_id user) user_data w1
                in Inr (PROFILE, reply_text (ProfileText user_data) w2))
             else Inr (PROFILE, reply_text (ProfileText user_data) w1))"

text \<open>The end of \<open>save_profile_edit\<close>, which every accepted value reaches: stamp the
  activity time, save, show the profile.\<close>

definition save_profile_finish ::
  "clock \<Rightarrow> update \<Rightarrow> user_data \<Rightarrow> world \<Rightarrow> py_error + conv_state \<times> world" where
  "save_profile_finish clk upd user_data w =
     (case profile user_data of
        None \<Rightarrow> Inl KeyError
      | Some p \<Rightarrow>
          (let user_data = user_data\<lparr>profile := Some (p\<lparr>last_activity := dt_now clk\<rparr>)\<rparr>;
               w1 = save_user_data (tg_id (effective_user upd)) user_data w
           in profile_cmd clk upd w1))"

text \<open>\<open>save_profile_edit\<close>; \<open>editing\<close> is the field name kept in the session by
  \<open>handle_edit_choice\<close>, if any.\<close>

definition save_profile_edit ::
  "clock \<Rightarrow> string option \<Rightarrow> update \<Rightarrow> world \<Rightarrow> py_error + conv_state \<times> world" where
  "save_profile_edit clk editing upd w =
     (let user = effective_user upd;
          (user_data, w1) = get_user_data clk (tg_id user) w;
          field = editing;
          val = py_strip (message_text upd)
      in if field = Some ''bio'' then
           (if length val > 500 then Inr (EDIT_VALUE, reply_text BioTooLong w1)
            else case profile user_data of
                   None \<Rightarrow> Inl KeyError
                 | Some p \<Rightarrow>
                     save_profile_finish clk upd
                       (user_data\<lparr>profile := Some (p\<lparr>bio := val\<rparr>)\<rparr>)
                       (reply_text BioUpdated w1))
         else if field = Some ''location'' then
           (if length val > 100 then Inr (EDIT_VALUE, reply_text LocationTooLong w1)
            else case profile user_data of
                   None \<Rightarrow> Inl KeyError
                 | Some p \<Rightarrow>
                     save_profile_finish clk upd
                       (user_data\<lparr>profile := Some (p\<lparr>location := val\<rparr>)\<rparr>)
                       (reply_text LocationUpdated w1))
         else if field = Some ''interests'' then
           (let its = filter (\<lambda>i. i \<noteq> []) (map py_strip (py_split_on (CHR '','') None val))
            in if length its > 10 then Inr (EDIT_VALUE, reply_text TooManyInterests w1)
               else if list_ex (\<lambda>interest. length interest > 30) its
               then Inr (EDIT_VALUE, reply_text InterestTooLong w1)
               else case profile user_data of
                      None \<Rightarrow> Inl KeyError
                    | Some p \<Rightarrow>
                        save_profile_finish clk upd
                          (user_data\<lparr>profile := Some (p\<lparr>interests := its\<rparr>)\<rparr>)
                          (reply_text (InterestsUpdated (length its)) w1))
         else save_profile_finish clk upd user_data w1)"

section \<open>Broadcast\<close>

text \<open>The loop of \<open>broadcast_message\<close> over the keys of the users mapping, in their order.
  The pause follows a send that did not raise; a send that raised is counted and the loop
  goes on.\<close>

fun broadcast_loop ::
  "platform \<Rightarrow> string \<Rightarrow> int list \<Rightarrow> nat \<Rightarrow> nat \<Rightarrow> world \<Rightarrow> nat \<times> nat \<times> world" where
  "broadcast_loop pf message [] n_success n_failed w = (n_success, n_failed, w)"
| "broadcast_loop pf message (k # ks) n_success n_failed w =
     (let w1 = send_message k (Announcement message) w
      in if delivery_fails pf k
         then broadcast_loop pf message ks n_success (n_failed + 1) w1
         else broadcast_loop pf message ks (n_success + 1) n_failed (emit Sleep w1))"

text \<open>\<open>save_broadcast\<close>: an unparsable file counts as the empty list; a file that cannot be
  opened is left alone.\<close>

definition save_broadcast ::
  "clock \<Rightarrow> int \<Rightarrow> string \<Rightarrow> nat \<Rightarrow> nat \<Rightarrow> nat \<Rightarrow> world \<Rightarrow> world" where
  "save_broadcast clk adm message n_total n_success n_failed w =
     (let b = \<lparr> bc_admin_id = adm, bc_timestamp = dt_now clk, bc_message = message,
                total_recipients = n_total, successful = n_success, failed = n_failed \<rparr>
      in case broadcasts_file w of
           Content broadcasts \<Rightarrow> w\<lparr>broadcasts_file := Content (broadcasts @ [b])\<rparr>
         | Corrupt \<Rightarrow> w\<lparr>broadcasts_file := Content [b]\<rparr>
         | Missing \<Rightarrow> w)"

definition broadcast_message ::
  "platform \<Rightarrow> clock \<Rightarrow> string list \<Rightarrow> update \<Rightarrow> world \<Rightarrow> world" where
  "broadcast_message pf clk args upd w =
     (let user = effective_user upd;
          (adm, w1) = is_admin clk (tg_id user) w
      in if \<not> adm then reply_text AdminsOnly w1
         else if args = [] then reply_text BroadcastUsage w1
         else
           (let message = py_join '' '' args;
                users = get_all_users w1;
                n_total = length users;
                (n_success, n_failed, w2) = broadcast_loop pf message (map fst users) 0 0 w1;
                w3 = save_broadcast clk (tg_id user) message n_total n_success n_failed w2
            in reply_text
                 (BroadcastReport n_total n_success n_failed
                    (take 100 message @ (if length message > 100 then ''...'' else [])))
                 w3))"

section \<open>Promotion and demotion\<close>

text \<open>\<open>promote_user\<close>. A first argument that is no integer raises \<open>ValueError\<close>, answered by
  the format hint. The \<open>return\<close> for a bad role leaves before the command is logged. The
  record read for the target is never empty, so the ``not found'' branch cannot be taken.\<close>

definition promote_user :: "clock \<Rightarrow> string list \<Rightarrow> update \<Rightarrow> world \<Rightarrow> world" where
  "promote_user clk args upd w =
     (let user = effective_user upd;
          (adm, w1) = is_admin clk (tg_id user) w
      in if \<not> adm then reply_text AdminsOnly w1
         else case args of
           [] \<Rightarrow> reply_text PromoteUsage w1
         | a0 # rest \<Rightarrow>
             (case py_int a0 of
                None \<Rightarrow>
                  log_command clk (tg_id user) (''/promote '' @ a0)
                    (reply_text PromoteInvalidFormat w1)
              | Some target_user_id \<Rightarrow>
                  (let new_role = (case rest of [] \<Rightarrow> ''moderator'' | a1 # _ \<Rightarrow> py_lower a1)
                   in if new_role \<notin> set [''moderator'', ''admin'']
                      then reply_text InvalidRole w1
                      else
                        (let (target_user_data, w2) = get_user_data clk target_user_id w1;
                             old_role = role target_user_data;
                             target_user_data = target_user_data
                               \<lparr>role := (if new_role = ''moderator'' then UserRole_MODERATOR
                                         else UserRole_ADMIN)\<rparr>;
                             w3 = save_user_data target_user_id target_user_data w2;
                             w4 = reply_text (Promoted target_user_id old_role new_role) w3;
                             w5 = send_message target_user_id (Congratulations new_role) w4
                         in log_command clk (tg_id user) (''/promote '' @ a0) w5))))"

definition demote_user :: "clock \<Rightarrow> string list \<Rightarrow> update \<Rightarrow> world \<Rightarrow> world" where
  "demote_user clk args upd w =
     (let user = effective_user upd;
          (adm, w1) = is_admin clk (tg_id user) w
      in if \<not> adm then reply_text AdminsOnly w1
         else case args of
           [] \<Rightarrow> reply_text DemoteUsage w1
         | a0 # rest \<Rightarrow>
             (case py_int a0 of
                None \<Rightarrow>
                  log_command clk (tg_id user) (''/demote '' @ a0)
                    (reply_text DemoteInvalidFormat w1)
              | Some target_user_id \<Rightarrow>
                  (let (target_user_data, w2) = get_user_data clk target_user_id w1;
                       old_role = role target_user_data
                   in if old_role = UserRole_USER then reply_text AlreadyRegularUser w2
                      else
                        (let target_user_data = target_user_data\<lparr>role := UserRole_USER\<rparr>;
                             w3 = save_user_data target_user_id target_user_data w2;
                             w4 = reply_text (Demoted target_user_id old_role) w3;
                             w5 = send_message target_user_id DemotedNotice w4
                         in log_command clk (tg_id user) (''/demote '' @ a0) w5))))"


section \<open>Example inputs\<close>

text \<open>A small configuration and store on which the statements below are also evaluated: user
  1 is on the admin list and stored as admin, user 2 is on the moderator list, user 7 is an
  ordinary stored user; the limits are 2 messages (3 for admins) per 60 seconds.\<close>

definition example_record :: "string \<Rightarrow> user_data" where
  "example_record r =
     \<lparr> chat_mode = False, first_seen = 0, last_seen = 0, message_count = 0,
       language = ''en'', role = r,
       profile = Some \<lparr> full_name = ''Ada'', username = ''ada'', bio = ''old bio'',
                        location = [], interests = [], preferred_topics = [],
                        last_activity = 0 \<rparr>,
       settings = \<lparr> notifications = True, daily_digest = False, privacy = None,
                    theme = None \<rparr>,
       stats = \<lparr> commands_used = 0, messages_sent = 4, media_sent = None,
                 stickers_sent = None, voice_messages = None, active_days = None,
                 last_command = None, last_command_time = None,
                 favorite_commands = None \<rparr>,
       rate_limit = \<lparr> count = 0, last_reset = 100 \<rparr>,
       achievements = None, metadata = None,
       waiting_for_feedback = None, setting_reminder = None \<rparr>"

definition example_world :: world where
  "example_world =
     \<lparr> ADMIN_IDS = [1], MODERATOR_IDS = [2],
       RATE_LIMIT_DEFAULT = 2, RATE_LIMIT_ADMIN = 3, RATE_LIMIT_WINDOW = 60,
       DEFAULT_LANGUAGE = ''en'',
       users_file = Content [(1, example_record ''admin''), (7, example_record ''user'')],
       users_writable = True, users_writes = 0,
       feedback_file = Content [], reminders_file = Content [], broadcasts_file = Content [],
       chat_history = [], command_logs = [], outbox = [] \<rparr>"

definition example_clock :: clock where
  "example_clock = \<lparr> dt_now = 50400000000, time_now = 120 \<rparr>"

definition example_update :: "int \<Rightarrow> string \<Rightarrow> update" where
  "example_update uid txt =
     \<lparr> effective_user = \<lparr> tg_id = uid, tg_username = Some ''ada'', tg_first_name = ''Ada'',
                          tg_last_name = None \<rparr>,
       chat_id = uid, chat_type = ''private'', message_text = txt \<rparr>"


text \<open>A platform whose AI provider always answers the same and where sending to chat 9
  fails.\<close>

definition example_platform :: platform where
  "example_platform =
     \<lparr> bot_username = ''helperbot'', ai_answer = (\<lambda>t u. ''ok''),
       delivery_fails = (\<lambda>c. c = 9) \<rparr>"

section \<open>Notions used to state the claims\<close>

text \<open>The rate-limit entry stored for an id.\<close>

definition stored_rate :: "world \<Rightarrow> int \<Rightarrow> rate_limit_data option" where
  "stored_rate w user_id = map_option rate_limit (stored_user w user_id)"

text \<open>The limit that applies to an id, in the words of the specification: the admin tier for
  an admin (stored role admin, or on the static admin list), the default tier for everyone
  else.\<close>

definition tier_limit :: "world \<Rightarrow> int \<Rightarrow> int" where
  "tier_limit w user_id =
     (if stored_role w user_id = Some UserRole_ADMIN \<or> user_id \<in> set (ADMIN_IDS w)
      then RATE_LIMIT_ADMIN w else RATE_LIMIT_DEFAULT w)"

text \<open>The fixed-window counter of the specification, on the stored entry alone: whether the
  message is accepted, and the entry stored afterwards. A rejected message stores nothing,
  so the entry stays as it was.\<close>

definition spec_rate_step ::
  "int \<Rightarrow> real \<Rightarrow> real \<Rightarrow> rate_limit_data \<Rightarrow> bool \<times> rate_limit_data" where
  "spec_rate_step L W now rl =
     (let cur = (if now - last_reset rl > W then \<lparr>count = 0, last_reset = now\<rparr> else rl)
      in if count cur \<ge> L then (False, rl)
         else (True, cur\<lparr>count := count cur + 1\<rparr>))"

text \<open>The rate limiter run on a sequence of messages of one user, one clock reading each.\<close>

fun rate_run :: "int \<Rightarrow> clock list \<Rightarrow> world \<Rightarrow> bool list \<times> world" where
  "rate_run user_id [] w = ([], w)"
| "rate_run user_id (clk # clks) w =
     (let (ok, w1) = check_rate_limit clk user_id w;
          (oks, w2) = rate_run user_id clks w1
      in (ok # oks, w2))"

section \<open>Basic facts about the store\<close>

text \<open>What each operation leaves alone.\<close>

lemma save_all_users_frame [simp]:
  "ADMIN_IDS (save_all_users us w) = ADMIN_IDS w"
  "MODERATOR_IDS (save_all_users us w) = MODERATOR_IDS w"
  "RATE_LIMIT_DEFAULT (save_all_users us w) = RATE_LIMIT_DEFAULT w"
  "RATE_LIMIT_ADMIN (save_all_users us w) = RATE_LIMIT_ADMIN w"
  "RATE_LIMIT_WINDOW (save_all_users us w) = RATE_LIMIT_WINDOW w"
  "DEFAULT_LANGUAGE (save_all_users us w) = DEFAULT_LANGUAGE w"
  "users_writable (save_all_users us w) = users_writable w"
  "feedback_file (save_all_users us w) = feedback_file w"
  "reminders_file (save_all_users us w) = reminders_file w"
  "broadcasts_file (save_all_users us w) = broadcasts_file w"
  "chat_history (save_all_users us w) = chat_history w"
  "command_logs (save_all_users us w) = command_logs w"
  "outbox (save_all_users us w) = outbox w"
  by (simp_all add: save_all_users_def)

lemma save_user_data_frame [simp]:
  "ADMIN_IDS (save_user_data uid d w) = ADMIN_IDS w"
  "MODERATOR_IDS (save_user_data uid d w) = MODERATOR_IDS w"
  "RATE_LIMIT_DEFAULT (save_user_data uid d w) = RATE_LIMIT_DEFAULT w"
  "RATE_LIMIT_ADMIN (save_user_data uid d w) = RATE_LIMIT_ADMIN w"
  "RATE_LIMIT_WINDOW (save_user_data uid d w) = RATE_LIMIT_WINDOW w"
  "DEFAULT_LANGUAGE (save_user_data uid d w) = DEFAULT_LANGUAGE w"
  "users_writable (save_user_data uid d w) = users_writable w"
  "feedback_file (save_user_data uid d w) = feedback_file w"
  "reminders_file (save_user_data uid d w) = reminders_file w"
  "broadcasts_file (save_user_data uid d w) = broadcasts_file w"
  "chat_history (save_user_data uid d w) = chat_history w"
  "command_logs (save_user_data uid d w) = command_logs w"
  "outbox (save_user_data uid d w) = outbox w"
  by (simp_all add: save_user_data_def split: json_file.splits)

lemma get_user_data_frame [simp]:
  "ADMIN_IDS (snd (get_user_data clk uid w)) = ADMIN_IDS w"
  "MODERATOR_IDS (snd (get_user_data clk uid w)) = MODERATOR_IDS w"
  "RATE_LIMIT_DEFAULT (snd (get_user_data clk uid w)) = RATE_LIMIT_DEFAULT w"
  "RATE_LIMIT_ADMIN (snd (get_user_data clk uid w)) = RATE_LIMIT_ADMIN w"
  "RATE_LIMIT_WINDOW (snd (get_user_data clk uid w)) = RATE_LIMIT_WINDOW w"
  "DEFAULT_LANGUAGE (snd (get_user_data clk uid w)) = DEFAULT_LANGUAGE w"
  "users_writable (snd (get_user_data clk uid w)) = users_writable w"
  "feedback_file (snd (get_user_data clk uid w)) = feedback_file w"
  "reminders_file (snd (get_user_data clk uid w)) = reminders_file w"
  "broadcasts_file (snd (get_user_data clk uid w)) = broadcasts_file w"
  "chat_history (snd (get_user_data clk uid w)) = chat_history w"
  "command_logs (snd (get_user_data clk uid w)) = command_logs w"
  "outbox (snd (get_user_data clk uid w)) = outbox w"
  by (simp_all add: get_user_data_def Let_def split: json_file.splits option.splits)

lemma reply_text_frame [simp]:
  "ADMIN_IDS (reply_text m w) = ADMIN_IDS w"
  "MODERATOR_IDS (reply_text m w) = MODERATOR_IDS w"
  "RATE_LIMIT_DEFAULT (reply_text m w) = RATE_LIMIT_DEFAULT w"
  "RATE_LIMIT_ADMIN (reply_text m w) = RATE_LIMIT_ADMIN w"
  "RATE_LIMIT_WINDOW (reply_text m w) = RATE_LIMIT_WINDOW w"
  "DEFAULT_LANGUAGE (reply_text m w) = DEFAULT_LANGUAGE w"
  "users_file (reply_text m w) = users_file w"
  "users_writable (reply_text m w) = users_writable w"
  "users_writes (reply_text m w) = users_writes w"
  "feedback_file (reply_text m w) = feedback_file w"
  "reminders_file (reply_text m w) = reminders_file w"
  "broadcasts_file (reply_text m w) = broadcasts_file w"
  "chat_history (reply_text m w) = chat_history w"
  "command_logs (reply_text m w) = command_logs w"
  by (simp_all add: reply_text_def)

lemma send_message_frame [simp]:
  "ADMIN_IDS (send_message c m w) = ADMIN_IDS w"
  "MODERATOR_IDS (send_message c m w) = MODERATOR_IDS w"
  "RATE_LIMIT_DEFAULT (send_message c m w) = RATE_LIMIT_DEFAULT w"
  "RATE_LIMIT_ADMIN (send_message c m w) = RATE_LIMIT_ADMIN w"
  "RATE_LIMIT_WINDOW (send_message c m w) = RATE_LIMIT_WINDOW w"
  "DEFAULT_LANGUAGE (send_message c m w) = DEFAULT_LANGUAGE w"
  "users_file (send_message c m w) = users_file w"
  "users_writable (send_message c m w) = users_writable w"
  "users_writes (send_message c m w) = users_writes w"
  "feedback_file (send_message c m w) = feedback_file w"
  "reminders_file (send_message c m w) = reminders_file w"
  "broadcasts_file (send_message c m w) = broadcasts_file w"
  "chat_history (send_message c m w) = chat_history w"
  "command_logs (send_message c m w) = command_logs w"
  by (simp_all add: send_message_def)

lemma emit_frame [simp]:
  "ADMIN_IDS (emit e w) = ADMIN_IDS w"
  "MODERATOR_IDS (emit e w) = MODERATOR_IDS w"
  "RATE_LIMIT_DEFAULT (emit e w) = RATE_LIMIT_DEFAULT w"
  "RATE_LIMIT_ADMIN (emit e w) = RATE_LIMIT_ADMIN w"
  "RATE_LIMIT_WINDOW (emit e w) = RATE_LIMIT_WINDOW w"
  "DEFAULT_LANGUAGE (emit e w) = DEFAULT_LANGUAGE w"
  "users_file (emit e w) = users_file w"
  "users_writable (emit e w) = users_writable w"
  "users_writes (emit e w) = users_writes w"
  "feedback_file (emit e w) = feedback_file w"
  "reminders_file (emit e w) = reminders_file w"
  "broadcasts_file (emit e w) = broadcasts_file w"
  "chat_history (emit e w) = chat_history w"
  "command_logs (emit e w) = command_logs w"
  by (simp_all add: emit_def)

lemma log_command_frame [simp]:
  "ADMIN_IDS (log_command clk uid cmd w) = ADMIN_IDS w"
  "MODERATOR_IDS (log_command clk uid cmd w) = MODERATOR_IDS w"
  "RATE_LIMIT_DEFAULT (log_command clk uid cmd w) = RATE_LIMIT_DEFAULT w"
  "RATE_LIMIT_ADMIN (log_command clk uid cmd w) = RATE_LIMIT_ADMIN w"
  "RATE_LIMIT_WINDOW (log_command clk uid cmd w) = RATE_LIMIT_WINDOW w"
  "DEFAULT_LANGUAGE (log_command clk uid cmd w) = DEFAULT_LANGUAGE w"
  "users_file (log_command clk uid cmd w) = users_file w"
  "users_writable (log_command clk uid cmd w) = users_writable w"
  "users_writes (log_command clk uid cmd w) = users_writes w"
  "feedback_file (log_command clk uid cmd w) = feedback_file w"
  "reminders_file (log_command clk uid cmd w) = reminders_file w"
  "broadcasts_file (log_command clk uid cmd w) = broadcasts_file w"
  "chat_history (log_command clk uid cmd w) = chat_history w"
  "outbox (log_command clk uid cmd w) = outbox w"
  by (simp_all add: log_command_def)

lemma save_chat_history_frame [simp]:
  "ADMIN_IDS (save_chat_history clk uid n t b w) = ADMIN_IDS w"
  "MODERATOR_IDS (save_chat_history clk uid n t b w) = MODERATOR_IDS w"
  "RATE_LIMIT_DEFAULT (save_chat_history clk uid n t b w) = RATE_LIMIT_DEFAULT w"
  "RATE_LIMIT_ADMIN (save_chat_history clk uid n t b w) = RATE_LIMIT_ADMIN w"
  "RATE_LIMIT_WINDOW (save_chat_history clk uid n t b w) = RATE_LIMIT_WINDOW w"
  "DEFAULT_LANGUAGE (save_chat_history clk uid n t b w) = DEFAULT_LANGUAGE w"
  "users_file (save_chat_history clk uid n t b w) = users_file w"
  "users_writable (save_chat_history clk uid n t b w) = users_writable w"
  "users_writes (save_chat_history clk uid n t b w) = users_writes w"
  "feedback_file (save_chat_history clk uid n t b w) = feedback_file w"
  "reminders_file (save_chat_history clk uid n t b w) = reminders_file w"
  "broadcasts_file (save_chat_history clk uid n t b w) = broadcasts_file w"
  "command_logs (save_chat_history clk uid n t b w) = command_logs w"
  "outbox (save_chat_history clk uid n t b w) = outbox w"
  by (simp_all add: save_chat_history_def)

lemma notify_loop_frame [simp]:
  "ADMIN_IDS (notify_loop as m w) = ADMIN_IDS w"
  "MODERATOR_IDS (notify_loop as m w) = MODERATOR_IDS w"
  "RATE_LIMIT_DEFAULT (notify_loop as m w) = RATE_LIMIT_DEFAULT w"
  "RATE_LIMIT_ADMIN (notify_loop as m w) = RATE_LIMIT_ADMIN w"
  "RATE_LIMIT_WINDOW (notify_loop as m w) = RATE_LIMIT_WINDOW w"
  "DEFAULT_LANGUAGE (notify_loop as m w) = DEFAULT_LANGUAGE w"
  "users_file (notify_loop as m w) = users_file w"
  "users_writable (notify_loop as m w) = users_writable w"
  "users_writes (notify_loop as m w) = users_writes w"
  "feedback_file (notify_loop as m w) = feedback_file w"
  "reminders_file (notify_loop as m w) = reminders_file w"
  "broadcasts_file (notify_loop as m w) = broadcasts_file w"
  "chat_history (notify_loop as m w) = chat_history w"
  "command_logs (notify_loop as m w) = command_logs w"
  by (induction as arbitrary: w; simp)+

lemma notify_admins_frame [simp]:
  "ADMIN_IDS (notify_admins m w) = ADMIN_IDS w"
  "MODERATOR_IDS (notify_admins m w) = MODERATOR_IDS w"
  "RATE_LIMIT_DEFAULT (notify_admins m w) = RATE_LIMIT_DEFAULT w"
  "RATE_LIMIT_ADMIN (notify_admins m w) = RATE_LIMIT_ADMIN w"
  "RATE_LIMIT_WINDOW (notify_admins m w) = RATE_LIMIT_WINDOW w"
  "DEFAULT_LANGUAGE (notify_admins m w) = DEFAULT_LANGUAGE w"
  "users_file (notify_admins m w) = users_file w"
  "users_writable (notify_admins m w) = users_writable w"
  "users_writes (notify_admins m w) = users_writes w"
  "feedback_file (notify_admins m w) = feedback_file w"
  "reminders_file (notify_admins m w) = reminders_file w"
  "broadcasts_file (notify_admins m w) = broadcasts_file w"
  "chat_history (notify_admins m w) = chat_history w"
  "command_logs (notify_admins m w) = command_logs w"
  by (simp_all add: notify_admins_def)

lemma save_reminder_frame [simp]:
  "ADMIN_IDS (save_reminder clk uid t m w) = ADMIN_IDS w"
  "MODERATOR_IDS (save_reminder clk uid t m w) = MODERATOR_IDS w"
  "RATE_LIMIT_DEFAULT (save_reminder clk uid t m w) = RATE_LIMIT_DEFAULT w"
  "RATE_LIMIT_ADMIN (save_reminder clk uid t m w) = RATE_LIMIT_ADMIN w"
  "RATE_LIMIT_WINDOW (save_reminder clk uid t m w) = RATE_LIMIT_WINDOW w"
  "DEFAULT_LANGUAGE (save_reminder clk uid t m w) = DEFAULT_LANGUAGE w"
  "users_file (save_reminder clk uid t m w) = users_file w"
  "users_writable (save_reminder clk uid t m w) = users_writable w"
  "users_writes (save_reminder clk uid t m w) = users_writes w"
  "feedback_file (save_reminder clk uid t m w) = feedback_file w"
  "broadcasts_file (save_reminder clk uid t m w) = broadcasts_file w"
  "chat_history (save_reminder clk uid t m w) = chat_history w"
  "command_logs (save_reminder clk uid t m w) = command_logs w"
  "outbox (save_reminder clk uid t m w) = outbox w"
  by (simp_all add: save_reminder_def split: json_file.splits)

lemma save_broadcast_frame [simp]:
  "ADMIN_IDS (save_broadcast clk a m n1 n2 n3 w) = ADMIN_IDS w"
  "MODERATOR_IDS (save_broadcast clk a m n1 n2 n3 w) = MODERATOR_IDS w"
  "RATE_LIMIT_DEFAULT (save_broadcast clk a m n1 n2 n3 w) = RATE_LIMIT_DEFAULT w"
  "RATE_LIMIT_ADMIN (save_broadcast clk a m n1 n2 n3 w) = RATE_LIMIT_ADMIN w"
  "RATE_LIMIT_WINDOW (save_broadcast clk a m n1 n2 n3 w) = RATE_LIMIT_WINDOW w"
  "DEFAULT_LANGUAGE (save_broadcast clk a m n1 n2 n3 w) = DEFAULT_LANGUAGE w"
  "users_file (save_broadcast clk a m n1 n2 n3 w) = users_file w"
  "users_writable (save_broadcast clk a m n1 n2 n3 w) = users_writable w"
  "users_writes (save_broadcast clk a m n1 n2 n3 w) = users_writes w"
  "feedback_file (save_broadcast clk a m n1 n2 n3 w) = feedback_file w"
  "reminders_file (save_broadcast clk a m n1 n2 n3 w) = reminders_file w"
  "chat_history (save_broadcast clk a m n1 n2 n3 w) = chat_history w"
  "command_logs (save_broadcast clk a m n1 n2 n3 w) = command_logs w"
  "outbox (save_broadcast clk a m n1 n2 n3 w) = outbox w"
  by (simp_all add: save_broadcast_def Let_def split: json_file.splits)

lemma outbox_simps [simp]:
  "outbox (reply_text m w) = outbox w @ [Reply m]"
  "outbox (send_message c m w) = outbox w @ [SendMessage c m]"
  "outbox (emit e w) = outbox w @ [e]"
  by (simp_all add: reply_text_def send_message_def emit_def)

lemma outbox_notify_loop [simp]:
  "outbox (notify_loop as m w) = outbox w @ map (\<lambda>a. SendMessage a m) as"
  by (induction as arbitrary: w) simp_all

lemma outbox_notify_admins [simp]:
  "outbox (notify_admins m w) = outbox w @ map (\<lambda>a. SendMessage a m) (ADMIN_IDS w)"
  by (simp add: notify_admins_def)

lemma command_logs_log_command [simp]:
  "command_logs (log_command clk uid cmd w) = command_logs w @ [(dt_now clk, uid, cmd)]"
  by (simp add: log_command_def)

lemma users_readable_frame [simp]:
  "users_readable (save_all_users us w) = (users_writable w \<or> users_readable w)"
  "users_readable (save_user_data uid d w) = users_readable w"
  "users_readable (snd (get_user_data clk uid w)) = users_readable w"
  "users_readable (reply_text m w) = users_readable w"
  "users_readable (send_message c m w) = users_readable w"
  "users_readable (emit e w) = users_readable w"
  "users_readable (log_command clk uid cmd w) = users_readable w"
  "users_readable (save_chat_history clk uid n t b w) = users_readable w"
  "users_readable (notify_admins m w) = users_readable w"
  "users_readable (save_reminder clk uid rt m' w) = users_readable w"
  "users_readable (save_broadcast clk a m' n1 n2 n3 w) = users_readable w"
  by (simp_all add: users_readable_def save_all_users_def save_user_data_def get_user_data_def
        Let_def split: json_file.splits option.splits)

lemma stored_user_frame [simp]:
  "stored_user (reply_text m w) = stored_user w"
  "stored_user (send_message c m w) = stored_user w"
  "stored_user (emit e w) = stored_user w"
  "stored_user (log_command clk uid cmd w) = stored_user w"
  "stored_user (save_chat_history clk uid n t b w) = stored_user w"
  "stored_user (notify_admins m w) = stored_user w"
  "stored_user (save_reminder clk uid rt m' w) = stored_user w"
  "stored_user (save_broadcast clk a m' n1 n2 n3 w) = stored_user w"
  by (simp_all add: stored_user_def fun_eq_iff)

lemma new_user_record_frame:
  "ADMIN_IDS w' = ADMIN_IDS w \<Longrightarrow> MODERATOR_IDS w' = MODERATOR_IDS w \<Longrightarrow>
   DEFAULT_LANGUAGE w' = DEFAULT_LANGUAGE w \<Longrightarrow>
   new_user_record clk uid w' = new_user_record clk uid w"
  by (simp add: new_user_record_def)

text \<open>Reading and writing one record, in terms of the observers.\<close>

lemma stored_user_save_user_data:
  "stored_user (save_user_data uid d w) uid' =
     (if users_readable w \<and> users_writable w \<and> uid' = uid then Some d else stored_user w uid')"
  by (simp add: stored_user_def users_readable_def save_user_data_def save_all_users_def
        update_conv' split: json_file.splits)

lemma fst_get_user_data:
  "fst (get_user_data clk uid w) =
     (case stored_user w uid of
        Some d \<Rightarrow> d
      | None \<Rightarrow> if users_readable w then new_user_record clk uid w
                else fallback_user_record clk w)"
  by (simp add: get_user_data_def stored_user_def users_readable_def Let_def
        split: json_file.splits option.splits)

lemma stored_user_get_user_data:
  "stored_user (snd (get_user_data clk uid w)) uid' =
     (if users_readable w \<and> users_writable w \<and> uid' = uid \<and> stored_user w uid = None
      then Some (new_user_record clk uid w) else stored_user w uid')"
  by (simp add: get_user_data_def stored_user_def users_readable_def save_all_users_def
        Let_def update_conv' split: json_file.splits option.splits)

lemma get_user_data_present:
  "stored_user w uid = Some d \<Longrightarrow> get_user_data clk uid w = (d, w)"
  by (simp add: get_user_data_def stored_user_def split: json_file.splits)

lemma role_consts_distinct [simp]:
  "UserRole_USER \<noteq> UserRole_ADMIN" "UserRole_ADMIN \<noteq> UserRole_USER"
  "UserRole_USER \<noteq> UserRole_MODERATOR" "UserRole_MODERATOR \<noteq> UserRole_USER"
  "UserRole_MODERATOR \<noteq> UserRole_ADMIN" "UserRole_ADMIN \<noteq> UserRole_MODERATOR"
  by (simp_all add: UserRole_USER_def UserRole_ADMIN_def UserRole_MODERATOR_def)

lemma role_new_user_record:
  "role (new_user_record clk uid w) =
     (if uid \<in> set (ADMIN_IDS w) then UserRole_ADMIN
      else if uid \<in> set (MODERATOR_IDS w) then UserRole_MODERATOR else UserRole_USER)"
  by (simp add: new_user_record_def)

lemma role_fallback_user_record [simp]:
  "role (fallback_user_record clk w) = UserRole_USER"
  by (simp add: fallback_user_record_def)

lemma is_admin_unfold:
  "is_admin clk uid w =
     (role (fst (get_user_data clk uid w)) = UserRole_ADMIN \<or> uid \<in> set (ADMIN_IDS w),
      snd (get_user_data clk uid w))"
  by (simp add: is_admin_def case_prod_beta)

lemma is_moderator_unfold:
  "is_moderator clk uid w =
     (role (fst (get_user_data clk uid w)) \<in> {UserRole_MODERATOR, UserRole_ADMIN}
        \<or> uid \<in> set (MODERATOR_IDS w) \<or> uid \<in> set (ADMIN_IDS w),
      snd (get_user_data clk uid w))"
  by (simp add: is_moderator_def case_prod_beta)

lemma snd_is_admin [simp]: "snd (is_admin clk uid w) = snd (get_user_data clk uid w)"
  by (simp add: is_admin_unfold)

lemma is_admin_iff:
  "fst (is_admin clk uid w) \<longleftrightarrow>
     stored_role w uid = Some UserRole_ADMIN \<or> uid \<in> set (ADMIN_IDS w)"
  by (auto simp: is_admin_unfold fst_get_user_data stored_role_def role_new_user_record
           split: option.splits)

lemma is_moderator_iff:
  "fst (is_moderator clk uid w) \<longleftrightarrow>
     stored_role w uid = Some UserRole_MODERATOR \<or> stored_role w uid = Some UserRole_ADMIN
     \<or> uid \<in> set (MODERATOR_IDS w) \<or> uid \<in> set (ADMIN_IDS w)"
  by (auto simp: is_moderator_unfold fst_get_user_data stored_role_def role_new_user_record
           split: option.splits)

section \<open>Permission checks (claim C3)\<close>

lemma demote_user_lists [simp]:
  "ADMIN_IDS (demote_user clk args upd w) = ADMIN_IDS w"
  "MODERATOR_IDS (demote_user clk args upd w) = MODERATOR_IDS w"
  by (simp_all add: demote_user_def Let_def case_prod_beta split: list.splits option.splits)

lemma promote_user_lists [simp]:
  "ADMIN_IDS (promote_user clk args upd w) = ADMIN_IDS w"
  "MODERATOR_IDS (promote_user clk args upd w) = MODERATOR_IDS w"
  by (simp_all add: promote_user_def Let_def case_prod_beta split: list.splits option.splits)

lemma demote_user_stored:
  assumes adm: "fst (is_admin clk (tg_id (effective_user upd)) w)"
    and arg: "py_int a = Some uid"
    and rd: "users_readable w" and wr: "users_writable w"
    and st: "stored_user w uid = Some d" and r: "role d \<noteq> UserRole_USER"
  shows "stored_user (demote_user clk [a] upd w) uid' =
           (if uid' = uid then Some (d\<lparr>role := UserRole_USER\<rparr>)
            else stored_user (snd (get_user_data clk (tg_id (effective_user upd)) w)) uid')"
  using assms
  by (simp add: demote_user_def Let_def case_prod_beta stored_user_save_user_data
        fst_get_user_data stored_user_get_user_data get_user_data_present)


lemma py_int_digit_examples:
  "py_int ''1'' = Some 1" "py_int ''7'' = Some 7" "py_int ''42'' = Some 42"
  by (simp_all add: py_int_def py_strip_def py_isspace_def py_unsigned_def is_digit_def
        digit_val_def)

lemma example_world_simps [simp]:
  "ADMIN_IDS example_world = [1]"
  "MODERATOR_IDS example_world = [2]"
  "users_readable example_world"
  "users_writable example_world"
  "stored_user example_world 1 = Some (example_record ''admin'')"
  "stored_user example_world 7 = Some (example_record ''user'')"
  "stored_user example_world 42 = None"
  by (simp_all add: example_world_def users_readable_def stored_user_def)

lemma example_update_simps [simp]:
  "tg_id (effective_user (example_update uid txt)) = uid"
  "message_text (example_update uid txt) = txt"
  "chat_type (example_update uid txt) = ''private''"
  "chat_id (example_update uid txt) = uid"
  by (simp_all add: example_update_def)

lemma role_example_record [simp]: "role (example_record r) = r"
  by (simp add: example_record_def)


text \<open>
  Claim C3. For every user id, \<open>is_admin\<close> answers true exactly when the stored role is
  admin or the id is on the static admin list, and \<open>is_moderator\<close> answers true exactly
  when the stored role is moderator or admin or the id is on either static list. (For an id
  without a stored record, or with an unreadable users file, there is no stored role and the
  answer is decided by the lists alone.) Consequently, when an admin demotes an id of the
  admin list whose stored role was not user, the stored role becomes user and \<open>is_admin\<close>
  still answers true for it.
\<close>

theorem permission_checks:
  "(fst (is_admin clk uid w) \<longleftrightarrow>
      stored_role w uid = Some UserRole_ADMIN \<or> uid \<in> set (ADMIN_IDS w))
   \<and> (fst (is_moderator clk uid w) \<longleftrightarrow>
      stored_role w uid = Some UserRole_MODERATOR \<or> stored_role w uid = Some UserRole_ADMIN
      \<or> uid \<in> set (MODERATOR_IDS w) \<or> uid \<in> set (ADMIN_IDS w))
   \<and> (uid \<in> set (ADMIN_IDS w) \<and> fst (is_admin clk (tg_id (effective_user upd)) w)
        \<and> py_int a = Some uid \<and> users_readable w \<and> users_writable w
        \<and> stored_role w uid = Some r \<and> r \<noteq> UserRole_USER \<longrightarrow>
        stored_role (demote_user clk [a] upd w) uid = Some UserRole_USER
        \<and> fst (is_admin clk' uid (demote_user clk [a] upd w)))"
proof (intro conjI impI)
  show "fst (is_admin clk uid w) \<longleftrightarrow>
      stored_role w uid = Some UserRole_ADMIN \<or> uid \<in> set (ADMIN_IDS w)"
    by (rule is_admin_iff)
  show "fst (is_moderator clk uid w) \<longleftrightarrow>
      stored_role w uid = Some UserRole_MODERATOR \<or> stored_role w uid = Some UserRole_ADMIN
      \<or> uid \<in> set (MODERATOR_IDS w) \<or> uid \<in> set (ADMIN_IDS w)"
    by (rule is_moderator_iff)
next
  assume h: "uid \<in> set (ADMIN_IDS w) \<and> fst (is_admin clk (tg_id (effective_user upd)) w)
        \<and> py_int a = Some uid \<and> users_readable w \<and> users_writable w
        \<and> stored_role w uid = Some r \<and> r \<noteq> UserRole_USER"
  then obtain d where d: "stored_user w uid = Some d" "role d = r"
    by (auto simp: stored_role_def)
  with h show "stored_role (demote_user clk [a] upd w) uid = Some UserRole_USER"
    by (simp add: stored_role_def demote_user_stored)
  from h show "fst (is_admin clk' uid (demote_user clk [a] upd w))"
    by (simp add: is_admin_iff)
qed

theorem permission_checks_witness:
  "(1::int) \<in> set (ADMIN_IDS example_world)
   \<and> fst (is_admin example_clock (tg_id (effective_user (example_update 1 []))) example_world)
   \<and> py_int ''1'' = Some 1 \<and> users_readable example_world \<and> users_writable example_world
   \<and> stored_role example_world 1 = Some ''admin'' \<and> ''admin'' \<noteq> UserRole_USER
   \<and> stored_role (demote_user example_clock [''1''] (example_update 1 []) example_world) 1
        = Some UserRole_USER
   \<and> fst (is_admin example_clock 1
            (demote_user example_clock [''1''] (example_update 1 []) example_world))"
proof -
  have h: "(1::int) \<in> set (ADMIN_IDS example_world)
   \<and> fst (is_admin example_clock (tg_id (effective_user (example_update 1 []))) example_world)
   \<and> py_int ''1'' = Some 1 \<and> users_readable example_world \<and> users_writable example_world
   \<and> stored_role example_world 1 = Some ''admin'' \<and> ''admin'' \<noteq> UserRole_USER"
    by (simp add: is_admin_iff stored_role_def py_int_digit_examples UserRole_USER_def)
  from permission_checks [of example_clock 1 example_world "example_update 1 []" "''1''"
      "''admin''" example_clock] h
  show ?thesis by blast
qed

section \<open>Promotion and demotion (claim C8)\<close>

lemma promote_user_stored:
  assumes adm: "fst (is_admin clk (tg_id (effective_user upd)) w)"
    and arg: "py_int a = Some uid"
    and rd: "users_readable w" and wr: "users_writable w"
  shows "stored_user (promote_user clk [a, ''moderator''] upd w) uid' =
           (if uid' = uid
            then Some ((fst (get_user_data clk uid
                               (snd (get_user_data clk (tg_id (effective_user upd)) w))))
                         \<lparr>role := UserRole_MODERATOR\<rparr>)
            else stored_user (snd (get_user_data clk (tg_id (effective_user upd)) w)) uid')"
  using assms
  by (simp add: promote_user_def Let_def case_prod_beta stored_user_save_user_data
        stored_user_get_user_data py_lower_def py_lower_char_def)

lemma get_user_data_keeps:
  "stored_user w uid' = Some d \<Longrightarrow> stored_user (snd (get_user_data clk uid w)) uid' = Some d"
  by (auto simp: stored_user_get_user_data)

lemma demote_user_already_user:
  assumes adm: "fst (is_admin clk (tg_id (effective_user upd)) w)"
    and arg: "py_int a = Some uid"
    and st: "stored_role w uid = Some UserRole_USER"
  shows "demote_user clk [a] upd w =
           reply_text AlreadyRegularUser (snd (get_user_data clk (tg_id (effective_user upd)) w))"
proof -
  let ?w1 = "snd (get_user_data clk (tg_id (effective_user upd)) w)"
  from st obtain d where d: "stored_user w uid = Some d" "role d = UserRole_USER"
    by (auto simp: stored_role_def)
  have "stored_user ?w1 uid = Some d"
    using d(1) by (rule get_user_data_keeps)
  then have "get_user_data clk uid ?w1 = (d, ?w1)"
    by (rule get_user_data_present)
  with adm arg d show ?thesis
    by (simp add: demote_user_def Let_def case_prod_beta)
qed

lemma new_user_record_after_get [simp]:
  "new_user_record clk uid (snd (get_user_data clk' uid' w)) = new_user_record clk uid w"
  by (rule new_user_record_frame) simp_all

lemma get_user_data_keeps_none:
  "stored_user w uid' = None \<Longrightarrow> uid' \<noteq> uid \<Longrightarrow>
   stored_user (snd (get_user_data clk uid w)) uid' = None"
  by (simp add: stored_user_get_user_data)

text \<open>The store after a promotion or demotion, for any arguments.\<close>

lemma promote_user_store_eq:
  "stored_user (promote_user clk args upd w) =
     (let w1 = snd (get_user_data clk (tg_id (effective_user upd)) w)
      in if \<not> fst (is_admin clk (tg_id (effective_user upd)) w) then stored_user w1
         else case args of
           [] \<Rightarrow> stored_user w1
         | a0 # rest \<Rightarrow>
             (case py_int a0 of
                None \<Rightarrow> stored_user w1
              | Some t \<Rightarrow>
                  (let new_role = (case rest of [] \<Rightarrow> ''moderator'' | a1 # _ \<Rightarrow> py_lower a1)
                   in if new_role \<notin> set [''moderator'', ''admin''] then stored_user w1
                      else stored_user
                             (save_user_data t
                                ((fst (get_user_data clk t w1))
                                   \<lparr>role := (if new_role = ''moderator'' then UserRole_MODERATOR
                                             else UserRole_ADMIN)\<rparr>)
                                (snd (get_user_data clk t w1))))))"
  by (simp add: promote_user_def Let_def case_prod_beta split: list.split option.split)

lemma demote_user_store_eq:
  "stored_user (demote_user clk args upd w) =
     (let w1 = snd (get_user_data clk (tg_id (effective_user upd)) w)
      in if \<not> fst (is_admin clk (tg_id (effective_user upd)) w) then stored_user w1
         else case args of
           [] \<Rightarrow> stored_user w1
         | a0 # rest \<Rightarrow>
             (case py_int a0 of
                None \<Rightarrow> stored_user w1
              | Some t \<Rightarrow>
                  if role (fst (get_user_data clk t w1)) = UserRole_USER
                  then stored_user (snd (get_user_data clk t w1))
                  else stored_user
                         (save_user_data t
                            ((fst (get_user_data clk t w1))\<lparr>role := UserRole_USER\<rparr>)
                            (snd (get_user_data clk t w1)))))"
  by (simp add: demote_user_def Let_def case_prod_beta split: list.split option.split)

text \<open>An id that the first argument does not name keeps exactly what it had, apart from the
  default record that the admin check creates for a caller not yet stored.\<close>

lemma promote_user_other_ids:
  assumes "\<not> (\<exists>a rest. args = a # rest \<and> py_int a = Some uid')"
  shows "stored_user (promote_user clk args upd w) uid' =
           stored_user (snd (get_user_data clk (tg_id (effective_user upd)) w)) uid'"
proof (cases args)
  case Nil
  then show ?thesis by (simp add: promote_user_store_eq Let_def)
next
  case (Cons a rest)
  show ?thesis
  proof (cases "py_int a")
    case None
    with Cons show ?thesis by (simp add: promote_user_store_eq Let_def)
  next
    case (Some t)
    with Cons assms have "t \<noteq> uid'" by auto
    with Cons Some show ?thesis
      by (simp add: promote_user_store_eq Let_def stored_user_save_user_data
            stored_user_get_user_data)
  qed
qed

lemma demote_user_other_ids:
  assumes "\<not> (\<exists>a rest. args = a # rest \<and> py_int a = Some uid')"
  shows "stored_user (demote_user clk args upd w) uid' =
           stored_user (snd (get_user_data clk (tg_id (effective_user upd)) w)) uid'"
proof (cases args)
  case Nil
  then show ?thesis by (simp add: demote_user_store_eq Let_def)
next
  case (Cons a rest)
  show ?thesis
  proof (cases "py_int a")
    case None
    with Cons show ?thesis by (simp add: demote_user_store_eq Let_def)
  next
    case (Some t)
    with Cons assms have "t \<noteq> uid'" by auto
    with Cons Some show ?thesis
      by (simp add: demote_user_store_eq Let_def stored_user_save_user_data
            stored_user_get_user_data)
  qed
qed

lemma promote_user_stored_id:
  assumes "stored_user w uid' = Some d"
  shows "stored_user (promote_user clk args upd w) uid' = Some d
         \<or> stored_user (promote_user clk args upd w) uid' = Some (d\<lparr>role := UserRole_MODERATOR\<rparr>)
         \<or> stored_user (promote_user clk args upd w) uid' = Some (d\<lparr>role := UserRole_ADMIN\<rparr>)"
proof -
  let ?w1 = "snd (get_user_data clk (tg_id (effective_user upd)) w)"
  have keep: "stored_user ?w1 uid' = Some d"
    using assms by (rule get_user_data_keeps)
  show ?thesis
  proof (cases "\<exists>a rest. args = a # rest \<and> py_int a = Some uid'")
    case False
    then have "stored_user (promote_user clk args upd w) uid' = stored_user ?w1 uid'"
      by (rule promote_user_other_ids)
    with keep show ?thesis by simp
  next
    case True
    then obtain a rest where args: "args = a # rest" and a: "py_int a = Some uid'"
      by blast
    have g: "get_user_data clk uid' ?w1 = (d, ?w1)"
      using keep by (rule get_user_data_present)
    show ?thesis
      unfolding args
      by (simp add: promote_user_store_eq Let_def a g keep stored_user_save_user_data)
  qed
qed

lemma demote_user_stored_id:
  assumes "stored_user w uid' = Some d"
  shows "stored_user (demote_user clk args upd w) uid' = Some d
         \<or> stored_user (demote_user clk args upd w) uid' = Some (d\<lparr>role := UserRole_USER\<rparr>)"
proof -
  let ?w1 = "snd (get_user_data clk (tg_id (effective_user upd)) w)"
  have keep: "stored_user ?w1 uid' = Some d"
    using assms by (rule get_user_data_keeps)
  show ?thesis
  proof (cases "\<exists>a rest. args = a # rest \<and> py_int a = Some uid'")
    case False
    then have "stored_user (demote_user clk args upd w) uid' = stored_user ?w1 uid'"
      by (rule demote_user_other_ids)
    with keep show ?thesis by simp
  next
    case True
    then obtain a rest where args: "args = a # rest" and a: "py_int a = Some uid'"
      by blast
    have g: "get_user_data clk uid' ?w1 = (d, ?w1)"
      using keep by (rule get_user_data_present)
    show ?thesis
      unfolding args
      by (simp add: demote_user_store_eq Let_def a g keep stored_user_save_user_data)
  qed
qed

lemma promote_user_files [simp]:
  "feedback_file (promote_user clk args upd w) = feedback_file w"
  "reminders_file (promote_user clk args upd w) = reminders_file w"
  "broadcasts_file (promote_user clk args upd w) = broadcasts_file w"
  "chat_history (promote_user clk args upd w) = chat_history w"
  "users_writable (promote_user clk args upd w) = users_writable w"
  "users_readable (promote_user clk args upd w) = users_readable w"
  by (simp_all add: promote_user_def Let_def case_prod_beta split: list.split option.split)

lemma demote_user_files [simp]:
  "feedback_file (demote_user clk args upd w) = feedback_file w"
  "reminders_file (demote_user clk args upd w) = reminders_file w"
  "broadcasts_file (demote_user clk args upd w) = broadcasts_file w"
  "chat_history (demote_user clk args upd w) = chat_history w"
  "users_writable (demote_user clk args upd w) = users_writable w"
  "users_readable (demote_user clk args upd w) = users_readable w"
  by (simp_all add: demote_user_def Let_def case_prod_beta split: list.split option.split)

text \<open>
  Claim C8. With a readable and writable users file and an integer argument naming the
  target: a promotion to moderator issued by an admin stores the role moderator, and a
  demotion then issued by an admin stores the role user; the target's record is otherwise
  exactly what it was. A demotion of an id whose stored role is already user only answers
  ``already a regular user'': nothing is written for the target and the command is not
  logged (the only possible write is the lazy creation of the caller's own record by the
  admin check, absent when the caller is already stored). For any arguments at all, both
  commands leave the two static lists and the other files as they are; a record stored
  before the command is afterwards either exactly as it was or differs in its role alone
  (moderator or admin after a promotion, user after a demotion); and the record of every
  id that the first argument does not name is exactly as it was.
\<close>

theorem promote_demote_roles:
  "(users_readable w \<and> users_writable w \<and> py_int a = Some uid
      \<and> fst (is_admin clk1 (tg_id (effective_user upd1)) w)
      \<and> fst (is_admin clk2 (tg_id (effective_user upd2))
                (promote_user clk1 [a, ''moderator''] upd1 w)) \<longrightarrow>
      stored_role (promote_user clk1 [a, ''moderator''] upd1 w) uid = Some UserRole_MODERATOR
      \<and> stored_role (demote_user clk2 [a] upd2 (promote_user clk1 [a, ''moderator''] upd1 w)) uid
          = Some UserRole_USER
      \<and> (stored_user w uid = Some d0 \<longrightarrow>
           stored_user (promote_user clk1 [a, ''moderator''] upd1 w) uid
             = Some (d0\<lparr>role := UserRole_MODERATOR\<rparr>)
           \<and> stored_user (demote_user clk2 [a] upd2
                             (promote_user clk1 [a, ''moderator''] upd1 w)) uid
               = Some (d0\<lparr>role := UserRole_USER\<rparr>)))
   \<and> (fst (is_admin clk (tg_id (effective_user upd)) w) \<and> py_int a = Some uid
      \<and> stored_role w uid = Some UserRole_USER \<longrightarrow>
      demote_user clk [a] upd w =
        reply_text AlreadyRegularUser (snd (get_user_data clk (tg_id (effective_user upd)) w))
      \<and> (stored_user w (tg_id (effective_user upd)) \<noteq> None \<longrightarrow>
           demote_user clk [a] upd w = reply_text AlreadyRegularUser w))
   \<and> ADMIN_IDS (promote_user clk args upd w) = ADMIN_IDS w
   \<and> MODERATOR_IDS (promote_user clk args upd w) = MODERATOR_IDS w
   \<and> ADMIN_IDS (demote_user clk args upd w) = ADMIN_IDS w
   \<and> MODERATOR_IDS (demote_user clk args upd w) = MODERATOR_IDS w
   \<and> feedback_file (promote_user clk args upd w) = feedback_file w
   \<and> reminders_file (promote_user clk args upd w) = reminders_file w
   \<and> broadcasts_file (promote_user clk args upd w) = broadcasts_file w
   \<and> chat_history (promote_user clk args upd w) = chat_history w
   \<and> feedback_file (demote_user clk args upd w) = feedback_file w
   \<and> reminders_file (demote_user clk args upd w) = reminders_file w
   \<and> broadcasts_file (demote_user clk args upd w) = broadcasts_file w
   \<and> chat_history (demote_user clk args upd w) = chat_history w
   \<and> (\<forall>uid' d. stored_user w uid' = Some d \<longrightarrow>
        (stored_user (promote_user clk args upd w) uid' = Some d
         \<or> stored_user (promote_user clk args upd w) uid' = Some (d\<lparr>role := UserRole_MODERATOR\<rparr>)
         \<or> stored_user (promote_user clk args upd w) uid' = Some (d\<lparr>role := UserRole_ADMIN\<rparr>))
        \<and> (stored_user (demote_user clk args upd w) uid' = Some d
           \<or> stored_user (demote_user clk args upd w) uid' = Some (d\<lparr>role := UserRole_USER\<rparr>))
        \<and> (\<not> (\<exists>b rest. args = b # rest \<and> py_int b = Some uid') \<longrightarrow>
             stored_user (promote_user clk args upd w) uid' = Some d
             \<and> stored_user (demote_user clk args upd w) uid' = Some d))"
proof (intro conjI impI allI)
  assume h: "users_readable w \<and> users_writable w \<and> py_int a = Some uid
      \<and> fst (is_admin clk1 (tg_id (effective_user upd1)) w)
      \<and> fst (is_admin clk2 (tg_id (effective_user upd2))
                (promote_user clk1 [a, ''moderator''] upd1 w))"
  let ?w' = "promote_user clk1 [a, ''moderator''] upd1 w"
  let ?w1 = "snd (get_user_data clk1 (tg_id (effective_user upd1)) w)"
  from h have b1: "users_readable w" and b2: "users_writable w" and b3: "py_int a = Some uid"
    and b4: "fst (is_admin clk1 (tg_id (effective_user upd1)) w)"
    by blast+
  have p: "\<And>uid'. stored_user ?w' uid' =
           (if uid' = uid
            then Some ((fst (get_user_data clk1 uid ?w1))\<lparr>role := UserRole_MODERATOR\<rparr>)
            else stored_user ?w1 uid')"
    using b4 b3 b1 b2 by (rule promote_user_stored)
  show "stored_role ?w' uid = Some UserRole_MODERATOR"
    by (simp add: stored_role_def p)
  have rw: "users_readable ?w'" "users_writable ?w'"
    using b1 b2 by simp_all
  let ?dm = "(fst (get_user_data clk1 uid ?w1))\<lparr>role := UserRole_MODERATOR\<rparr>"
  have st: "stored_user ?w' uid = Some ?dm"
    by (simp add: p)
  have dd: "stored_user (demote_user clk2 [a] upd2 ?w') uid = Some (?dm\<lparr>role := UserRole_USER\<rparr>)"
    using demote_user_stored [of clk2 upd2 ?w' a uid ?dm uid] h rw st by simp
  then show "stored_role (demote_user clk2 [a] upd2 ?w') uid = Some UserRole_USER"
    by (simp add: stored_role_def)
  assume s0: "stored_user w uid = Some d0"
  then have "stored_user ?w1 uid = Some d0"
    by (rule get_user_data_keeps)
  then have g0: "get_user_data clk1 uid ?w1 = (d0, ?w1)"
    by (rule get_user_data_present)
  show "stored_user ?w' uid = Some (d0\<lparr>role := UserRole_MODERATOR\<rparr>)"
    using st by (simp add: g0)
  show "stored_user (demote_user clk2 [a] upd2 ?w') uid = Some (d0\<lparr>role := UserRole_USER\<rparr>)"
    using dd by (simp add: g0)
next
  assume h: "fst (is_admin clk (tg_id (effective_user upd)) w) \<and> py_int a = Some uid
      \<and> stored_role w uid = Some UserRole_USER"
  then have a1: "fst (is_admin clk (tg_id (effective_user upd)) w)"
    and a2: "py_int a = Some uid" and a3: "stored_role w uid = Some UserRole_USER"
    by blast+
  from a1 a2 a3 show e: "demote_user clk [a] upd w =
        reply_text AlreadyRegularUser (snd (get_user_data clk (tg_id (effective_user upd)) w))"
    by (rule demote_user_already_user)
  assume "stored_user w (tg_id (effective_user upd)) \<noteq> None"
  then obtain dc where "stored_user w (tg_id (effective_user upd)) = Some dc" by auto
  then have "get_user_data clk (tg_id (effective_user upd)) w = (dc, w)"
    by (rule get_user_data_present)
  with e show "demote_user clk [a] upd w = reply_text AlreadyRegularUser w" by simp
next
  fix uid' d assume s: "stored_user w uid' = Some d"
  from s show "stored_user (promote_user clk args upd w) uid' = Some d
         \<or> stored_user (promote_user clk args upd w) uid' = Some (d\<lparr>role := UserRole_MODERATOR\<rparr>)
         \<or> stored_user (promote_user clk args upd w) uid' = Some (d\<lparr>role := UserRole_ADMIN\<rparr>)"
    by (rule promote_user_stored_id)
  from s show "stored_user (demote_user clk args upd w) uid' = Some d
           \<or> stored_user (demote_user clk args upd w) uid' = Some (d\<lparr>role := UserRole_USER\<rparr>)"
    by (rule demote_user_stored_id)
  assume n: "\<not> (\<exists>b rest. args = b # rest \<and> py_int b = Some uid')"
  have k: "stored_user (snd (get_user_data clk (tg_id (effective_user upd)) w)) uid' = Some d"
    using s by (rule get_user_data_keeps)
  show "stored_user (promote_user clk args upd w) uid' = Some d"
    using promote_user_other_ids [OF n] k by simp
  show "stored_user (demote_user clk args upd w) uid' = Some d"
    using demote_user_other_ids [OF n] k by simp
qed simp_all

theorem promote_demote_roles_witness:
  "users_readable example_world \<and> users_writable example_world \<and> py_int ''7'' = Some 7
   \<and> fst (is_admin example_clock (tg_id (effective_user (example_update 1 []))) example_world)
   \<and> fst (is_admin example_clock (tg_id (effective_user (example_update 1 [])))
           (promote_user example_clock [''7'', ''moderator''] (example_update 1 []) example_world))
   \<and> stored_role example_world 7 = Some UserRole_USER
   \<and> stored_user example_world (tg_id (effective_user (example_update 1 []))) \<noteq> None
   \<and> stored_user example_world 7 = Some (example_record ''user'')
   \<and> stored_user example_world 1 = Some (example_record ''admin'')
   \<and> stored_role (promote_user example_clock [''7'', ''moderator''] (example_update 1 [])
                    example_world) 7 = Some UserRole_MODERATOR
   \<and> stored_role (demote_user example_clock [''7''] (example_update 1 [])
                    (promote_user example_clock [''7'', ''moderator''] (example_update 1 [])
                       example_world)) 7 = Some UserRole_USER
   \<and> stored_user (promote_user example_clock [''7'', ''moderator''] (example_update 1 [])
                    example_world) 7 = Some ((example_record ''user'')\<lparr>role := UserRole_MODERATOR\<rparr>)
   \<and> stored_user (promote_user example_clock [''7'', ''moderator''] (example_update 1 [])
                    example_world) 1 = Some (example_record ''admin'')
   \<and> demote_user example_clock [''7''] (example_update 1 []) example_world
       = reply_text AlreadyRegularUser example_world"
proof -
  have h: "users_readable example_world \<and> users_writable example_world \<and> py_int ''7'' = Some 7
   \<and> fst (is_admin example_clock (tg_id (effective_user (example_update 1 []))) example_world)
   \<and> fst (is_admin example_clock (tg_id (effective_user (example_update 1 [])))
           (promote_user example_clock [''7'', ''moderator''] (example_update 1 []) example_world))
   \<and> stored_role example_world 7 = Some UserRole_USER
   \<and> stored_user example_world (tg_id (effective_user (example_update 1 []))) \<noteq> None
   \<and> stored_user example_world 7 = Some (example_record ''user'')
   \<and> stored_user example_world 1 = Some (example_record ''admin'')"
    by (simp add: is_admin_iff stored_role_def py_int_digit_examples UserRole_USER_def)
  have n: "\<not> (\<exists>b rest. [''7'', ''moderator''] = b # rest \<and> py_int b = Some (1::int))"
    by (simp add: py_int_digit_examples)
  from promote_demote_roles [where w = example_world and a = "''7''" and uid = 7
      and ?clk1.0 = example_clock and ?clk2.0 = example_clock and clk = example_clock
      and ?upd1.0 = "example_update 1 []" and ?upd2.0 = "example_update 1 []"
      and upd = "example_update 1 []" and args = "[''7'', ''moderator'']"
      and ?d0.0 = "example_record ''user''"] h n
  show ?thesis by blast
qed

section \<open>Lazy creation of user records (claim C5)\<close>

lemma update_absent_appends:
  "map_of al k = None \<Longrightarrow> AList.update k v al = al @ [(k, v)]"
  by (induction al) (auto split: if_splits)

lemma get_user_data_first:
  assumes "users_file w = Content us" and "map_of us uid = None" and "users_writable w"
  shows "get_user_data clk uid w =
           (new_user_record clk uid w,
            w\<lparr>users_file := Content (us @ [(uid, new_user_record clk uid w)]),
              users_writes := users_writes w + 1\<rparr>)"
  using assms
  by (simp add: get_user_data_def Let_def save_all_users_def update_absent_appends)

lemma get_user_data_second:
  assumes "users_file w = Content us" and "map_of us uid = None" and "users_writable w"
  shows "get_user_data clk' uid (snd (get_user_data clk uid w)) =
           (new_user_record clk uid w, snd (get_user_data clk uid w))"
  using assms by (simp add: get_user_data_first) (simp add: get_user_data_def map_add_def)

lemma get_user_data_unreadable:
  "users_file w = Missing \<or> users_file w = Corrupt \<Longrightarrow>
   get_user_data clk uid w = (fallback_user_record clk w, w)"
  by (auto simp: get_user_data_def)

text \<open>
  Claim C5. When the users file is readable and writable and holds no record for an id, the
  first \<open>get_user_data\<close> returns the full default record: every optional part (profile,
  privacy settings, theme, the five extra statistics, achievements, metadata) is present,
  the counters are zero, the chat mode is off, and the role is admin for an id of the admin
  list, else moderator for an id of the moderator list, else user. The record is appended
  to the file in one write, and a second read (at any later time) returns the very same
  record and leaves the world, hence the number of writes, as it is. When the users file is
  missing or cannot be parsed, \<open>get_user_data\<close> returns the minimal record (role user, no
  profile, achievements or metadata) and changes nothing, and \<open>get_all_users\<close> returns the
  empty mapping.
\<close>

theorem get_user_data_lazy_creation:
  "(users_file w = Content us \<and> map_of us uid = None \<and> users_writable w \<longrightarrow>
      (let d = fst (get_user_data clk uid w); w1 = snd (get_user_data clk uid w)
       in d = new_user_record clk uid w
          \<and> role d = (if uid \<in> set (ADMIN_IDS w) then UserRole_ADMIN
                      else if uid \<in> set (MODERATOR_IDS w) then UserRole_MODERATOR
                      else UserRole_USER)
          \<and> \<not> chat_mode d \<and> message_count d = 0 \<and> language d = DEFAULT_LANGUAGE w
          \<and> first_seen d = dt_now clk \<and> last_seen d = dt_now clk
          \<and> profile d = Some \<lparr> full_name = [], username = [], bio = [], location = [],
                                interests = [], preferred_topics = [],
                                last_activity = dt_now clk \<rparr>
          \<and> privacy (settings d) \<noteq> None \<and> theme (settings d) = Some ''system''
          \<and> notifications (settings d) \<and> \<not> daily_digest (settings d)
          \<and> commands_used (stats d) = 0 \<and> messages_sent (stats d) = 0
          \<and> media_sent (stats d) = Some 0 \<and> stickers_sent (stats d) = Some 0
          \<and> voice_messages (stats d) = Some 0 \<and> active_days (stats d) = Some 1
          \<and> favorite_commands (stats d) = Some []
          \<and> rate_limit d = \<lparr> count = 0, last_reset = time_now clk \<rparr>
          \<and> achievements d \<noteq> None \<and> metadata d \<noteq> None
          \<and> waiting_for_feedback d = None \<and> setting_reminder d = None
          \<and> users_file w1 = Content (us @ [(uid, d)])
          \<and> users_writes w1 = users_writes w + 1
          \<and> stored_user w1 uid = Some d
          \<and> get_user_data clk' uid w1 = (d, w1)))
   \<and> (users_file w = Missing \<or> users_file w = Corrupt \<longrightarrow>
        get_user_data clk uid w = (fallback_user_record clk w, w)
        \<and> role (fallback_user_record clk w) = UserRole_USER
        \<and> profile (fallback_user_record clk w) = None
        \<and> achievements (fallback_user_record clk w) = None
        \<and> metadata (fallback_user_record clk w) = None
        \<and> rate_limit (fallback_user_record clk w) = \<lparr> count = 0, last_reset = time_now clk \<rparr>
        \<and> get_all_users w = [])"
proof (intro conjI impI)
  assume h: "users_file w = Content us \<and> map_of us uid = None \<and> users_writable w"
  then have a: "users_file w = Content us" "map_of us uid = None" "users_writable w"
    by blast+
  have two: "get_user_data clk' uid (snd (get_user_data clk uid w)) =
           (new_user_record clk uid w, snd (get_user_data clk uid w))"
    using a by (rule get_user_data_second)
  show "let d = fst (get_user_data clk uid w); w1 = snd (get_user_data clk uid w)
       in d = new_user_record clk uid w
          \<and> role d = (if uid \<in> set (ADMIN_IDS w) then UserRole_ADMIN
                      else if uid \<in> set (MODERATOR_IDS w) then UserRole_MODERATOR
                      else UserRole_USER)
          \<and> \<not> chat_mode d \<and> message_count d = 0 \<and> language d = DEFAULT_LANGUAGE w
          \<and> first_seen d = dt_now clk \<and> last_seen d = dt_now clk
          \<and> profile d = Some \<lparr> full_name = [], username = [], bio = [], location = [],
                                interests = [], preferred_topics = [],
                                last_activity = dt_now clk \<rparr>
          \<and> privacy (settings d) \<noteq> None \<and> theme (settings d) = Some ''system''
          \<and> notifications (settings d) \<and> \<not> daily_digest (settings d)
          \<and> commands_used (stats d) = 0 \<and> messages_sent (stats d) = 0
          \<and> media_sent (stats d) = Some 0 \<and> stickers_sent (stats d) = Some 0
          \<and> voice_messages (stats d) = Some 0 \<and> active_days (stats d) = Some 1
          \<and> favorite_commands (stats d) = Some []
          \<and> rate_limit d = \<lparr> count = 0, last_reset = time_now clk \<rparr>
          \<and> achievements d \<noteq> None \<and> metadata d \<noteq> None
          \<and> waiting_for_feedback d = None \<and> setting_reminder d = None
          \<and> users_file w1 = Content (us @ [(uid, d)])
          \<and> users_writes w1 = users_writes w + 1
          \<and> stored_user w1 uid = Some d
          \<and> get_user_data clk' uid w1 = (d, w1)"
    unfolding Let_def
    apply (simp only: two)
    apply (simp only: get_user_data_first [OF a] fst_conv snd_conv)
    apply (simp add: new_user_record_def stored_user_def map_add_def a)
    done
next
  assume h: "users_file w = Missing \<or> users_file w = Corrupt"
  then show "get_user_data clk uid w = (fallback_user_record clk w, w)"
    by (rule get_user_data_unreadable)
  from h show "get_all_users w = []"
    by (auto simp: get_all_users_def)
qed (simp_all add: fallback_user_record_def)

theorem get_user_data_lazy_creation_witness:
  "users_file example_world = Content [(1, example_record ''admin''), (7, example_record ''user'')]
   \<and> map_of [(1, example_record ''admin''), (7, example_record ''user'')] (42::int) = None
   \<and> users_writable example_world
   \<and> fst (get_user_data example_clock 42 example_world)
       = new_user_record example_clock 42 example_world
   \<and> role (fst (get_user_data example_clock 42 example_world)) = UserRole_USER
   \<and> users_writes (snd (get_user_data example_clock 42 example_world))
       = users_writes example_world + 1
   \<and> get_user_data example_clock 42 (snd (get_user_data example_clock 42 example_world))
       = (fst (get_user_data example_clock 42 example_world),
          snd (get_user_data example_clock 42 example_world))
   \<and> users_file (example_world\<lparr>users_file := Missing\<rparr>) = Missing
   \<and> get_user_data example_clock 42 (example_world\<lparr>users_file := Missing\<rparr>)
       = (fallback_user_record example_clock (example_world\<lparr>users_file := Missing\<rparr>),
          example_world\<lparr>users_file := Missing\<rparr>)
   \<and> get_all_users (example_world\<lparr>users_file := Missing\<rparr>) = []"
proof -
  have h1: "users_file example_world
              = Content [(1, example_record ''admin''), (7, example_record ''user'')]
            \<and> map_of [(1, example_record ''admin''), (7, example_record ''user'')] (42::int) = None
            \<and> users_writable example_world"
    by (simp add: example_world_def)
  have h2: "users_file (example_world\<lparr>users_file := Missing\<rparr>) = Missing
            \<or> users_file (example_world\<lparr>users_file := Missing\<rparr>) = Corrupt"
    by simp
  have r: "(if (42::int) \<in> set (ADMIN_IDS example_world) then UserRole_ADMIN
            else if 42 \<in> set (MODERATOR_IDS example_world) then UserRole_MODERATOR
            else UserRole_USER) = UserRole_USER"
    by simp
  from get_user_data_lazy_creation [of example_world
      "[(1, example_record ''admin''), (7, example_record ''user'')]" 42 example_clock
      example_clock] h1
  have c1: "fst (get_user_data example_clock 42 example_world)
       = new_user_record example_clock 42 example_world
   \<and> role (fst (get_user_data example_clock 42 example_world)) = UserRole_USER
   \<and> users_writes (snd (get_user_data example_clock 42 example_world))
       = users_writes example_world + 1
   \<and> get_user_data example_clock 42 (snd (get_user_data example_clock 42 example_world))
       = (fst (get_user_data example_clock 42 example_world),
          snd (get_user_data example_clock 42 example_world))"
    unfolding Let_def r by blast
  from get_user_data_lazy_creation [of "example_world\<lparr>users_file := Missing\<rparr>" "[]" 42
      example_clock example_clock] h2
  have c2: "get_user_data example_clock 42 (example_world\<lparr>users_file := Missing\<rparr>)
       = (fallback_user_record example_clock (example_world\<lparr>users_file := Missing\<rparr>),
          example_world\<lparr>users_file := Missing\<rparr>)
   \<and> get_all_users (example_world\<lparr>users_file := Missing\<rparr>) = []"
    by blast
  have h3: "users_file (example_world\<lparr>users_file := Missing\<rparr>) = Missing"
    by simp
  from h1 h3 c1 c2 show ?thesis by blast
qed

section \<open>Rate limiter (claim C1)\<close>

lemma rate_limit_data_all_fields:
  "r\<lparr>count := a, last_reset := b\<rparr> = \<lparr>count = a, last_reset = b\<rparr>"
  "r\<lparr>last_reset := b, count := a\<rparr> = \<lparr>count = a, last_reset = b\<rparr>"
  by (cases r, simp)+

lemma check_rate_limit_stored:
  assumes st: "stored_user w uid = Some d"
  shows "check_rate_limit clk uid w =
           (let r = spec_rate_step (tier_limit w uid) (real_of_int (RATE_LIMIT_WINDOW w))
                      (time_now clk) (rate_limit d)
            in (fst r, if fst r then save_user_data uid (d\<lparr>rate_limit := snd r\<rparr>) w else w))"
proof -
  have g: "get_user_data clk uid w = (d, w)"
    using st by (rule get_user_data_present)
  have r: "(role d = UserRole_ADMIN \<or> uid \<in> set (ADMIN_IDS w)) =
           (stored_role w uid = Some UserRole_ADMIN \<or> uid \<in> set (ADMIN_IDS w))"
    using st by (simp add: stored_role_def)
  show ?thesis
    by (simp add: check_rate_limit_def is_admin_unfold g Let_def spec_rate_step_def
          tier_limit_def RATE_LIMIT_def r [symmetric] rate_limit_data_all_fields)
qed

lemma rate_run_within_window:
  assumes "users_readable w" and "users_writable w"
    and "stored_user w uid = Some d" and "rate_limit d = \<lparr>count = c, last_reset = t0\<rparr>"
    and "\<forall>clk \<in> set clks. time_now clk - t0 \<le> real_of_int (RATE_LIMIT_WINDOW w)"
  shows "fst (rate_run uid clks w) = map (\<lambda>i. c + int i < tier_limit w uid) [0..<length clks]
         \<and> users_readable (snd (rate_run uid clks w))
         \<and> users_writable (snd (rate_run uid clks w))
         \<and> RATE_LIMIT_WINDOW (snd (rate_run uid clks w)) = RATE_LIMIT_WINDOW w
         \<and> tier_limit (snd (rate_run uid clks w)) uid = tier_limit w uid
         \<and> stored_user (snd (rate_run uid clks w)) uid =
             Some (d\<lparr>rate_limit := \<lparr>count = max c (min (c + int (length clks)) (tier_limit w uid)),
                                    last_reset = t0\<rparr>\<rparr>)"
  using assms
proof (induction clks arbitrary: w d c)
  case Nil
  then show ?case by simp
next
  case (Cons clk clks)
  let ?L = "tier_limit w uid"
  have nw: "\<not> time_now clk - t0 > real_of_int (RATE_LIMIT_WINDOW w)"
    using Cons.prems(5) by simp
  have rest: "\<forall>k \<in> set clks. time_now k - t0 \<le> real_of_int (RATE_LIMIT_WINDOW w)"
    using Cons.prems(5) by simp
  show ?case
  proof (cases "c < ?L")
    case False
    have step: "check_rate_limit clk uid w = (False, w)"
      using False nw Cons.prems(4)
      by (simp add: check_rate_limit_stored [OF Cons.prems(3)] spec_rate_step_def Let_def)
    have allF: "map (\<lambda>i. c + int i < ?L) [0..<length (clk # clks)] =
                False # map (\<lambda>i. c + int i < ?L) [0..<length clks]"
      using False by (simp add: map_replicate_const)
    from Cons.IH [OF Cons.prems(1) Cons.prems(2) Cons.prems(3) Cons.prems(4) rest]
    show ?thesis
      using False by (simp add: step case_prod_beta map_replicate_const)
  next
    case True
    let ?d1 = "d\<lparr>rate_limit := \<lparr>count = c + 1, last_reset = t0\<rparr>\<rparr>"
    let ?w1 = "save_user_data uid ?d1 w"
    have step: "check_rate_limit clk uid w = (True, ?w1)"
      using True nw Cons.prems(4)
      by (simp add: check_rate_limit_stored [OF Cons.prems(3)] spec_rate_step_def Let_def)
    have s1: "stored_user ?w1 uid = Some ?d1"
      using Cons.prems by (simp add: stored_user_save_user_data)
    have tl: "tier_limit ?w1 uid = ?L"
      using Cons.prems(1,2,3)
      by (simp add: tier_limit_def stored_role_def stored_user_save_user_data)
    have rest1: "\<forall>k \<in> set clks. time_now k - t0 \<le> real_of_int (RATE_LIMIT_WINDOW ?w1)"
      using rest by simp
    have ih: "fst (rate_run uid clks ?w1) =
                map (\<lambda>i. (c + 1) + int i < tier_limit ?w1 uid) [0..<length clks]
         \<and> users_readable (snd (rate_run uid clks ?w1))
         \<and> users_writable (snd (rate_run uid clks ?w1))
         \<and> RATE_LIMIT_WINDOW (snd (rate_run uid clks ?w1)) = RATE_LIMIT_WINDOW ?w1
         \<and> tier_limit (snd (rate_run uid clks ?w1)) uid = tier_limit ?w1 uid
         \<and> stored_user (snd (rate_run uid clks ?w1)) uid =
             Some (?d1\<lparr>rate_limit :=
                    \<lparr>count = max (c + 1) (min ((c + 1) + int (length clks)) (tier_limit ?w1 uid)),
                     last_reset = t0\<rparr>\<rparr>)"
      using Cons.prems(1,2)
      by (intro Cons.IH [OF _ _ s1 _ rest1]) simp_all
    have m: "map (\<lambda>i. c + int i < ?L) [0..<Suc (length clks)] =
                True # map (\<lambda>i. (c + 1) + int i < ?L) [0..<length clks]"
      using True by (auto simp add: map_upt_Suc algebra_simps simp del: upt_Suc)
    have mx: "max (c + 1) (min ((c + 1) + int (length clks)) ?L) =
              max c (min (c + int (length (clk # clks))) ?L)"
      using True by auto
    show ?thesis
      using ih unfolding tl
      by (simp add: step case_prod_beta m mx del: upt_Suc)
  qed
qed

lemma get_user_data_idem:
  "get_user_data clk uid (snd (get_user_data clk uid w)) = get_user_data clk uid w"
proof (cases "users_file w")
  case (Content us)
  show ?thesis
  proof (cases "map_of us uid")
    case None
    show ?thesis
    proof (cases "users_writable w")
      case True
      with Content None show ?thesis
        by (simp add: get_user_data_second) (simp add: get_user_data_first)
    next
      case False
      with Content None show ?thesis
        by (simp add: get_user_data_def save_all_users_def Let_def)
    qed
  next
    case (Some d)
    with Content show ?thesis by (simp add: get_user_data_def)
  qed
qed (simp_all add: get_user_data_def)

lemma check_rate_limit_any:
  "check_rate_limit clk uid w =
     (let d = fst (get_user_data clk uid w);
          w1 = snd (get_user_data clk uid w);
          L = (if role d = UserRole_ADMIN \<or> uid \<in> set (ADMIN_IDS w)
               then RATE_LIMIT_ADMIN w else RATE_LIMIT_DEFAULT w);
          r = spec_rate_step L (real_of_int (RATE_LIMIT_WINDOW w)) (time_now clk) (rate_limit d)
      in (fst r, if fst r then save_user_data uid (d\<lparr>rate_limit := snd r\<rparr>) w1 else w1))"
  by (simp add: check_rate_limit_def is_admin_unfold Let_def case_prod_beta get_user_data_idem
        spec_rate_step_def RATE_LIMIT_def rate_limit_data_all_fields)

lemma check_rate_limit_other:
  "uid' \<noteq> uid \<Longrightarrow> stored_user (snd (check_rate_limit clk uid w)) uid' = stored_user w uid'"
  by (simp add: check_rate_limit_any Let_def stored_user_save_user_data
        stored_user_get_user_data)

lemma rate_run_other:
  "uid' \<noteq> uid \<Longrightarrow> stored_user (snd (rate_run uid clks w)) uid' = stored_user w uid'"
  by (induction clks arbitrary: w) (simp_all add: case_prod_beta check_rate_limit_other)

text \<open>
  Claim C1. For every user and every world, \<open>check_rate_limit\<close> is the fixed-window counter
  of the specification applied to the rate-limit entry of the record that \<open>get_user_data\<close>
  yields: the limit is the admin limit when \<open>is_admin\<close> holds and the default limit for
  everyone else, moderators included, the window is the configured one; the window is
  reset when strictly more than the window has passed since \<open>last_reset\<close>; a message at
  or over the limit is rejected and nothing is stored; otherwise the incremented entry is
  saved. Hence, with a readable and writable users file and a stored record whose window
  has just started (count 0 at \<open>t0\<close>), of any messages arriving within the window the
  first \<open>L\<close> are accepted and all later ones rejected, the stored count ends at the
  number of accepted messages with the window start unchanged, and nobody else's record is
  touched; and when the limit is positive, a message arriving more than the window after
  \<open>t0\<close> is accepted and starts a new window with count 1.
\<close>

theorem rate_limiter_fixed_window:
  "check_rate_limit clk uid w =
     (let d = fst (get_user_data clk uid w);
          w1 = snd (get_user_data clk uid w);
          L = (if fst (is_admin clk uid w) then RATE_LIMIT_ADMIN w else RATE_LIMIT_DEFAULT w);
          r = spec_rate_step L (real_of_int (RATE_LIMIT_WINDOW w)) (time_now clk) (rate_limit d)
      in (fst r, if fst r then save_user_data uid (d\<lparr>rate_limit := snd r\<rparr>) w1 else w1))
   \<and> (stored_role w uid = Some UserRole_MODERATOR \<and> uid \<notin> set (ADMIN_IDS w) \<longrightarrow>
        \<not> fst (is_admin clk uid w) \<and> tier_limit w uid = RATE_LIMIT_DEFAULT w)
   \<and> (users_readable w \<and> users_writable w \<and> stored_user w uid = Some d0
        \<and> rate_limit d0 = \<lparr>count = 0, last_reset = t0\<rparr>
        \<and> (\<forall>k \<in> set clks. time_now k - t0 \<le> real_of_int (RATE_LIMIT_WINDOW w)) \<longrightarrow>
        fst (rate_run uid clks w) = map (\<lambda>i. int i < tier_limit w uid) [0..<length clks]
        \<and> stored_user (snd (rate_run uid clks w)) uid =
             Some (d0\<lparr>rate_limit :=
                       \<lparr>count = max 0 (min (int (length clks)) (tier_limit w uid)),
                        last_reset = t0\<rparr>\<rparr>)
        \<and> (\<forall>uid'. uid' \<noteq> uid \<longrightarrow>
              stored_user (snd (rate_run uid clks w)) uid' = stored_user w uid')
        \<and> (0 < tier_limit w uid \<and> time_now clk' - t0 > real_of_int (RATE_LIMIT_WINDOW w) \<longrightarrow>
             fst (check_rate_limit clk' uid (snd (rate_run uid clks w)))
             \<and> stored_rate (snd (check_rate_limit clk' uid (snd (rate_run uid clks w)))) uid
                 = Some \<lparr>count = 1, last_reset = time_now clk'\<rparr>
             \<and> stored_user (snd (check_rate_limit clk' uid (snd (rate_run uid clks w)))) uid
                 = Some (d0\<lparr>rate_limit := \<lparr>count = 1, last_reset = time_now clk'\<rparr>\<rparr>)))"
proof (intro conjI impI allI)
  show "check_rate_limit clk uid w =
     (let d = fst (get_user_data clk uid w);
          w1 = snd (get_user_data clk uid w);
          L = (if fst (is_admin clk uid w) then RATE_LIMIT_ADMIN w else RATE_LIMIT_DEFAULT w);
          r = spec_rate_step L (real_of_int (RATE_LIMIT_WINDOW w)) (time_now clk) (rate_limit d)
      in (fst r, if fst r then save_user_data uid (d\<lparr>rate_limit := snd r\<rparr>) w1 else w1))"
    by (simp add: check_rate_limit_any is_admin_unfold)
next
  assume "stored_role w uid = Some UserRole_MODERATOR \<and> uid \<notin> set (ADMIN_IDS w)"
  then show "\<not> fst (is_admin clk uid w)" "tier_limit w uid = RATE_LIMIT_DEFAULT w"
    by (simp_all add: is_admin_iff tier_limit_def)
next
  assume h: "users_readable w \<and> users_writable w \<and> stored_user w uid = Some d0
        \<and> rate_limit d0 = \<lparr>count = 0, last_reset = t0\<rparr>
        \<and> (\<forall>k \<in> set clks. time_now k - t0 \<le> real_of_int (RATE_LIMIT_WINDOW w))"
  then have a: "users_readable w" "users_writable w" "stored_user w uid = Some d0"
    "rate_limit d0 = \<lparr>count = 0, last_reset = t0\<rparr>"
    "\<forall>k \<in> set clks. time_now k - t0 \<le> real_of_int (RATE_LIMIT_WINDOW w)"
    by blast+
  note run = rate_run_within_window [OF a]
  from run show "fst (rate_run uid clks w) = map (\<lambda>i. int i < tier_limit w uid) [0..<length clks]"
    by simp
  let ?w' = "snd (rate_run uid clks w)"
  let ?d' = "d0\<lparr>rate_limit :=
               \<lparr>count = max 0 (min (0 + int (length clks)) (tier_limit w uid)), last_reset = t0\<rparr>\<rparr>"
  from run have st: "stored_user ?w' uid = Some ?d'" and rd: "users_readable ?w'"
    and wr: "users_writable ?w'" and win: "RATE_LIMIT_WINDOW ?w' = RATE_LIMIT_WINDOW w"
    and tl: "tier_limit ?w' uid = tier_limit w uid"
    by blast+
  from st show "stored_user ?w' uid =
             Some (d0\<lparr>rate_limit :=
                       \<lparr>count = max 0 (min (int (length clks)) (tier_limit w uid)),
                        last_reset = t0\<rparr>\<rparr>)"
    by simp
  {
    fix uid' :: int assume "uid' \<noteq> uid"
    then show "stored_user ?w' uid' = stored_user w uid'"
      by (rule rate_run_other)
  }
  assume later: "0 < tier_limit w uid \<and> time_now clk' - t0 > real_of_int (RATE_LIMIT_WINDOW w)"
  have step: "check_rate_limit clk' uid ?w' =
          (True, save_user_data uid (?d'\<lparr>rate_limit := \<lparr>count = 1, last_reset = time_now clk'\<rparr>\<rparr>) ?w')"
    using later
    by (simp add: check_rate_limit_stored [OF st] tl win spec_rate_step_def Let_def)
  show "fst (check_rate_limit clk' uid ?w')"
    by (simp add: step)
  show "stored_rate (snd (check_rate_limit clk' uid ?w')) uid
          = Some \<lparr>count = 1, last_reset = time_now clk'\<rparr>"
    using rd wr by (simp add: step stored_rate_def stored_user_save_user_data)
  show "stored_user (snd (check_rate_limit clk' uid ?w')) uid
          = Some (d0\<lparr>rate_limit := \<lparr>count = 1, last_reset = time_now clk'\<rparr>\<rparr>)"
    using rd wr by (simp add: step stored_user_save_user_data)
qed

lemma rate_limit_example_record [simp]:
  "rate_limit (example_record r) = \<lparr>count = 0, last_reset = 100\<rparr>"
  by (simp add: example_record_def)

theorem rate_limiter_fixed_window_witness:
  "users_readable example_world \<and> users_writable example_world
   \<and> stored_user example_world 7 = Some (example_record ''user'')
   \<and> rate_limit (example_record ''user'') = \<lparr>count = 0, last_reset = 100\<rparr>
   \<and> tier_limit example_world 7 = 2
   \<and> fst (rate_run 7 [\<lparr>dt_now = 0, time_now = 120\<rparr>, \<lparr>dt_now = 0, time_now = 130\<rparr>,
                       \<lparr>dt_now = 0, time_now = 160\<rparr>] example_world)
       = [True, True, False]
   \<and> fst (check_rate_limit \<lparr>dt_now = 0, time_now = 161\<rparr> 7
        (snd (rate_run 7 [\<lparr>dt_now = 0, time_now = 120\<rparr>, \<lparr>dt_now = 0, time_now = 130\<rparr>,
                          \<lparr>dt_now = 0, time_now = 160\<rparr>] example_world)))
   \<and> stored_rate (snd (check_rate_limit \<lparr>dt_now = 0, time_now = 161\<rparr> 7
        (snd (rate_run 7 [\<lparr>dt_now = 0, time_now = 120\<rparr>, \<lparr>dt_now = 0, time_now = 130\<rparr>,
                          \<lparr>dt_now = 0, time_now = 160\<rparr>] example_world)))) 7
       = Some \<lparr>count = 1, last_reset = 161\<rparr>"
proof -
  let ?clks = "[\<lparr>dt_now = 0, time_now = 120\<rparr>, \<lparr>dt_now = 0, time_now = 130\<rparr>,
                \<lparr>dt_now = 0, time_now = 160\<rparr>] :: clock list"
  have tl: "tier_limit example_world 7 = 2"
    by (simp add: tier_limit_def stored_role_def) (simp add: example_world_def UserRole_ADMIN_def)
  have win: "RATE_LIMIT_WINDOW example_world = 60"
    by (simp add: example_world_def)
  have h: "users_readable example_world \<and> users_writable example_world
        \<and> stored_user example_world 7 = Some (example_record ''user'')
        \<and> rate_limit (example_record ''user'') = \<lparr>count = 0, last_reset = 100\<rparr>
        \<and> (\<forall>k \<in> set ?clks. time_now k - 100 \<le> real_of_int (RATE_LIMIT_WINDOW example_world))"
    by (simp add: win)
  have l: "0 < tier_limit example_world 7
           \<and> time_now \<lparr>dt_now = 0, time_now = 161\<rparr> - 100
               > real_of_int (RATE_LIMIT_WINDOW example_world)"
    by (simp add: tl win)
  have m: "map (\<lambda>i. int i < tier_limit example_world 7) [0..<length ?clks] = [True, True, False]"
    by (simp add: tl upt_rec)
  from rate_limiter_fixed_window [of example_clock 7 example_world "example_record ''user''"
      100 ?clks "\<lparr>dt_now = 0, time_now = 161\<rparr>"] h l
  have c: "fst (rate_run 7 ?clks example_world)
             = map (\<lambda>i. int i < tier_limit example_world 7) [0..<length ?clks]
           \<and> fst (check_rate_limit \<lparr>dt_now = 0, time_now = 161\<rparr> 7
                   (snd (rate_run 7 ?clks example_world)))
           \<and> stored_rate (snd (check_rate_limit \<lparr>dt_now = 0, time_now = 161\<rparr> 7
                   (snd (rate_run 7 ?clks example_world)))) 7
               = Some \<lparr>count = 1, last_reset = time_now \<lparr>dt_now = 0, time_now = 161\<rparr>\<rparr>"
    by blast
  have t: "time_now \<lparr>dt_now = 0, time_now = 161\<rparr> = 161" by simp
  from h tl c show ?thesis unfolding m t by blast
qed

section \<open>Counting before the rate-limit gate (claim C10)\<close>

lemma check_rate_limit_rejected_world:
  "\<not> fst (check_rate_limit clk uid w) \<Longrightarrow>
   snd (check_rate_limit clk uid w) = snd (get_user_data clk uid w)"
  by (simp add: check_rate_limit_any Let_def)

lemma get_after_save_world:
  "snd (get_user_data clk uid (save_user_data uid d' (snd (get_user_data clk uid w)))) =
     save_user_data uid d' (snd (get_user_data clk uid w))"
  by (simp add: get_user_data_def save_user_data_def save_all_users_def Let_def update_conv'
        split: json_file.splits option.splits)

lemma get_after_save_record:
  "fst (get_user_data clk uid (save_user_data uid d' (snd (get_user_data clk uid w)))) =
     (if users_readable w \<and> users_writable w then d' else fst (get_user_data clk uid w))"
  by (simp add: get_user_data_def save_user_data_def save_all_users_def Let_def update_conv'
        users_readable_def split: json_file.splits option.splits)

lemma users_writes_save_user_data:
  "users_writes (save_user_data uid d w) =
     (if users_readable w \<and> users_writable w then users_writes w + 1 else users_writes w)"
  by (simp add: save_user_data_def save_all_users_def users_readable_def
        split: json_file.splits)

lemma handle_message_unfold:
  assumes "message_text upd \<noteq> []" and "chat_type upd \<noteq> ''channel''"
  shows "handle_message pf clk upd w =
     (let user = effective_user upd;
          d = fst (get_user_data clk (tg_id user) w);
          d' = d\<lparr>last_seen := dt_now clk,
                 stats := (stats d)\<lparr>messages_sent := messages_sent (stats d) + 1\<rparr>\<rparr>;
          w2 = save_user_data (tg_id user) d' (snd (get_user_data clk (tg_id user) w));
          ok = fst (check_rate_limit clk (tg_id user) w2);
          w3 = snd (check_rate_limit clk (tg_id user) w2)
      in if \<not> ok then reply_text TooFast w3
         else
           (let w4 = save_chat_history clk (tg_id user) (tg_username_or_none user)
                       (message_text upd) False w3
            in if chat_mode d' then
                 save_chat_history clk (tg_id user) (Some ''Bot'')
                   (ai_answer pf (message_text upd) (tg_id user)) True
                   (reply_text (AiReply (ai_answer pf (message_text upd) (tg_id user)))
                      (emit (ChatAction (chat_id upd)) w4))
               else if chat_type upd \<in> set [''group'', ''supergroup''] then
                 (if py_in (''@'' @ bot_username pf) (message_text upd)
                  then reply_text GroupIntro w4 else w4)
               else if chat_type upd = ''private'' then
                 (if waiting_for_feedback d' = Some True then handle_feedback clk upd w4
                  else if setting_reminder d' = Some True then handle_reminder clk upd w4
                  else if \<not> startswith (message_text upd) ''/'' then reply_text NotInChatMode w4
                  else w4)
               else w4))"
  using assms by (simp add: handle_message_def Let_def case_prod_beta)

lemma gate_after_counting:
  "fst (check_rate_limit clk uid
          (save_user_data uid
             (d\<lparr>last_seen := t, stats := (stats d)\<lparr>messages_sent := n\<rparr>\<rparr>)
             (snd (get_user_data clk uid w)))) =
     fst (spec_rate_step
            (if role d = UserRole_ADMIN \<or> uid \<in> set (ADMIN_IDS w)
             then RATE_LIMIT_ADMIN w else RATE_LIMIT_DEFAULT w)
            (real_of_int (RATE_LIMIT_WINDOW w)) (time_now clk) (rate_limit d))"
  if "d = fst (get_user_data clk uid w)"
  using that by (simp add: check_rate_limit_any Let_def get_after_save_record)



end
